theory Spec2Isabelle
  imports Complex_Main "HOL-Library.AList"
begin

section \<open>JavaScript values as the client code sees them\<close>

text \<open>
  The sources are the TypeScript client of the wargame: the order catalogue
  (\<^verbatim>\<open>api/orderDefinitions.ts\<close>), the order form (\<^verbatim>\<open>components/OrderBuilder.tsx\<close>),
  the tick controls and the order ledger (\<^verbatim>\<open>components/TickControls.tsx\<close>, which also
  holds \<^verbatim>\<open>OrderList\<close>), the HTTP client and the page that wires them together.

  A JavaScript number is NaN, one of the two infinities, or a finite double. Every finite
  double is a rational, so the finite case carries a \<^typ>\<open>rat\<close>; the two zeros of IEEE
  arithmetic are identified (both are falsy, both satisfy \<^verbatim>\<open><= 0\<close>, both are finite).
\<close>

datatype jsnum = NaN | PosInfinity | NegInfinity | Fin rat

datatype jsval =
    Undefined
  | Null
  | JBool bool
  | JNum jsnum
  | JStr string
  | JArr "jsval list"
  | JObj "(string \<times> jsval) list"

text \<open>\<^verbatim>\<open>Number.isFinite\<close>, \<^verbatim>\<open>Number.isNaN\<close>, \<^verbatim>\<open>Number.isInteger\<close>.\<close>

fun Number_isFinite :: "jsnum \<Rightarrow> bool" where
  "Number_isFinite (Fin x) = True"
| "Number_isFinite n = False"

fun Number_isNaN :: "jsnum \<Rightarrow> bool" where
  "Number_isNaN NaN = True"
| "Number_isNaN n = False"

fun Number_isInteger :: "jsnum \<Rightarrow> bool" where
  "Number_isInteger (Fin x) = (of_int (floor x) = x)"
| "Number_isInteger n = False"

text \<open>The comparisons \<^verbatim>\<open>a <= b\<close> and \<^verbatim>\<open>a >= b\<close> on numbers: false as soon as one side is NaN.\<close>

fun js_le :: "jsnum \<Rightarrow> jsnum \<Rightarrow> bool" where
  "js_le NaN b = False"
| "js_le a NaN = False"
| "js_le NegInfinity b = True"
| "js_le a PosInfinity = True"
| "js_le PosInfinity b = False"
| "js_le a NegInfinity = False"
| "js_le (Fin x) (Fin y) = (x \<le> y)"

definition js_ge :: "jsnum \<Rightarrow> jsnum \<Rightarrow> bool" where
  "js_ge a b = js_le b a"

text \<open>Truthiness, as \<^verbatim>\<open>Boolean(v)\<close>, \<^verbatim>\<open>!v\<close> and the conditional operator read it.\<close>

fun truthy_num :: "jsnum \<Rightarrow> bool" where
  "truthy_num NaN = False"
| "truthy_num (Fin x) = (x \<noteq> 0)"
| "truthy_num n = True"

fun js_Boolean :: "jsval \<Rightarrow> bool" where
  "js_Boolean Undefined = False"
| "js_Boolean Null = False"
| "js_Boolean (JBool b) = b"
| "js_Boolean (JNum n) = truthy_num n"
| "js_Boolean (JStr s) = (s \<noteq> [])"
| "js_Boolean (JArr xs) = True"
| "js_Boolean (JObj kvs) = True"

text \<open>A value of type \<^verbatim>\<open>number | null\<close> is a \<^typ>\<open>jsnum option\<close>; \<^verbatim>\<open>!x\<close> on it:\<close>

fun falsy_opt :: "jsnum option \<Rightarrow> bool" where
  "falsy_opt None = True"
| "falsy_opt (Some n) = (\<not> truthy_num n)"

text \<open>
  The built-in conversions the components call are parameters of the model: the
  string-to-number conversion behind \<^verbatim>\<open>Number(s)\<close>, the number-to-string and
  object-to-string conversions behind \<^verbatim>\<open>String(v)\<close>, \<^verbatim>\<open>JSON.parse\<close> (\<open>None\<close> when it
  throws) and \<^verbatim>\<open>String.prototype.trim\<close>. Every theorem below holds for all of them.
\<close>

record builtins =
  StringToNumber :: "string \<Rightarrow> jsnum"
  NumberToString :: "jsnum \<Rightarrow> string"
  ObjectToString :: "jsval \<Rightarrow> string"
  JSON_parse :: "string \<Rightarrow> jsval option"
  trim :: "string \<Rightarrow> string"

text \<open>\<^verbatim>\<open>String(v)\<close> and \<^verbatim>\<open>Number(v)\<close> on any value.\<close>

fun js_String :: "builtins \<Rightarrow> jsval \<Rightarrow> string" where
  "js_String B Undefined = ''undefined''"
| "js_String B Null = ''null''"
| "js_String B (JBool b) = (if b then ''true'' else ''false'')"
| "js_String B (JNum n) = NumberToString B n"
| "js_String B (JStr s) = s"
| "js_String B (JArr xs) = ObjectToString B (JArr xs)"
| "js_String B (JObj kvs) = ObjectToString B (JObj kvs)"

fun js_Number :: "builtins \<Rightarrow> jsval \<Rightarrow> jsnum" where
  "js_Number B Undefined = NaN"
| "js_Number B Null = Fin 0"
| "js_Number B (JBool b) = (if b then Fin 1 else Fin 0)"
| "js_Number B (JNum n) = n"
| "js_Number B (JStr s) = StringToNumber B s"
| "js_Number B (JArr xs) = StringToNumber B (ObjectToString B (JArr xs))"
| "js_Number B (JObj kvs) = StringToNumber B (ObjectToString B (JObj kvs))"

subsection \<open>A concrete instance of the built-ins for plain decimal literals\<close>

text \<open>
  For evaluating the components at concrete inputs: white space is the ASCII white
  space, and a string converts to a number when, once trimmed, it is empty (zero) or an
  optionally signed decimal literal \<^verbatim>\<open>ddd\<close>, \<^verbatim>\<open>ddd.ddd\<close>, \<^verbatim>\<open>.ddd\<close> or \<^verbatim>\<open>ddd.\<close>; every
  other string converts to NaN here. On the literals used below (short literals whose
  value is a dyadic rational) this is the value \<^verbatim>\<open>Number\<close> returns. The concrete inputs
  below hold strings, numbers and booleans only and leave the JSON field blank, so the
  remaining three conversions are never called on them.
\<close>

definition is_space :: "char \<Rightarrow> bool" where
  "is_space c = (c \<in> set [CHR 0x09, CHR 0x0A, CHR 0x0B, CHR 0x0C, CHR 0x0D, CHR 0x20])"

definition ascii_trim :: "string \<Rightarrow> string" where
  "ascii_trim s = rev (dropWhile is_space (rev (dropWhile is_space s)))"

definition is_digit :: "char \<Rightarrow> bool" where
  "is_digit c = (48 \<le> (of_char c :: nat) \<and> (of_char c :: nat) \<le> 57)"

definition digits_value :: "string \<Rightarrow> nat" where
  "digits_value ds = foldl (\<lambda>acc c. 10 * acc + (of_char c - 48)) 0 ds"

definition unsigned_decimal :: "string \<Rightarrow> rat option" where
  "unsigned_decimal s =
     (let ip = takeWhile (\<lambda>c. c \<noteq> CHR ''.'') s;
          rest = dropWhile (\<lambda>c. c \<noteq> CHR ''.'') s;
          fp = (if rest = [] then [] else tl rest)
      in if (ip = [] \<and> fp = []) \<or> \<not> list_all is_digit ip \<or> \<not> list_all is_digit fp
         then None
         else Some (of_nat (digits_value ip) + of_nat (digits_value fp) / 10 ^ length fp))"

definition decimal_StringToNumber :: "string \<Rightarrow> jsnum" where
  "decimal_StringToNumber s =
     (let t = ascii_trim s in
      if t = [] then Fin 0
      else if hd t = CHR ''-'' then
        (case unsigned_decimal (tl t) of None \<Rightarrow> NaN | Some x \<Rightarrow> Fin (- x))
      else if hd t = CHR ''+'' then
        (case unsigned_decimal (tl t) of None \<Rightarrow> NaN | Some x \<Rightarrow> Fin x)
      else (case unsigned_decimal t of None \<Rightarrow> NaN | Some x \<Rightarrow> Fin x))"

definition plain_builtins :: builtins where
  "plain_builtins =
     \<lparr> StringToNumber = decimal_StringToNumber,
       NumberToString = (\<lambda>n. ''''),
       ObjectToString = (\<lambda>v. ''''),
       JSON_parse = (\<lambda>s. None),
       trim = ascii_trim \<rparr>"

section \<open>TickControls: the advance form\<close>

text \<open>
  \<^verbatim>\<open>handleAdvance\<close> reads the text of the day-count input, converts it and either returns
  without a request or calls \<^verbatim>\<open>advanceTick.mutate(count)\<close>, which posts
  \<^verbatim>\<open>{ days: count }\<close> to the campaign's \<^verbatim>\<open>/tick/advance\<close>.
\<close>

datatype advance_outcome = NoAdvanceRequest | AdvanceTick (days: jsnum)

definition handleAdvance :: "builtins \<Rightarrow> string \<Rightarrow> advance_outcome" where
  "handleAdvance B days_text =
     (let count = js_Number B (JStr days_text) in
      if \<not> Number_isFinite count \<or> js_le count (Fin 0) then NoAdvanceRequest
      else AdvanceTick count)"

text \<open>The contract of the engine's \<^verbatim>\<open>advance\<close>: an integer day count of at least one.\<close>

definition integer_days_at_least_1 :: "jsnum \<Rightarrow> bool" where
  "integer_days_at_least_1 n = (Number_isInteger n \<and> js_ge n (Fin 1))"





section \<open>OrderList: the ledger's cancel control\<close>

text \<open>
  \<^verbatim>\<open>OrderCreateRequest\<close> and \<^verbatim>\<open>OrderSummary\<close> of \<^verbatim>\<open>api/types.ts\<close>. The summary has every
  field of the request and five more, so it is the request's extension; its \<^verbatim>\<open>id\<close> is
  \<open>order_id\<close> here. The handler assigns its \<^verbatim>\<open>number | null\<close> state to
  \<^verbatim>\<open>commander_id\<close>, hence the option type.
\<close>

record OrderCreateRequest =
  army_id :: "jsnum option"
  commander_id :: "jsnum option"
  order_type :: string
  parameters :: "(string \<times> jsval) list"
  execute_day :: "jsnum option"
  execute_part :: "string option"
  priority :: jsnum

record OrderSummary = OrderCreateRequest +
  order_id :: jsnum
  status :: string
  issued_at :: string
  execute_at :: string
  result :: "jsval option"

text \<open>
  The last cell of a ledger row: \<^verbatim>\<open>order.status === "pending" || order.status ===
  "executing" ? <button onClick={() => onCancel(order.id)} disabled={isCancelling}> : null\<close>.
\<close>

datatype cancel_cell = NoCancelControl | CancelButton (button_order: jsnum) (button_disabled: bool)

definition OrderList_cancel_cell :: "OrderSummary \<Rightarrow> bool \<Rightarrow> cancel_cell" where
  "OrderList_cancel_cell order isCancelling =
     (if status order = ''pending'' \<or> status order = ''executing''
      then CancelButton (order_id order) isCancelling
      else NoCancelControl)"

text \<open>
  A click on the cell. \<^verbatim>\<open>CampaignDetailPage\<close> passes
  \<^verbatim>\<open>onCancel = (orderId) => cancelOrder.mutate(orderId)\<close>, which posts to
  \<^verbatim>\<open>/campaigns/{campaignId}/orders/{orderId}/cancel\<close>; a disabled button does nothing.
\<close>

record cancelOrder_request =
  cancel_campaignId :: jsnum
  cancel_orderId :: jsnum

fun click_cancel :: "jsnum \<Rightarrow> cancel_cell \<Rightarrow> cancelOrder_request option" where
  "click_cancel campaignId NoCancelControl = None"
| "click_cancel campaignId (CancelButton orderId disabled) =
     (if disabled then None
      else Some \<lparr> cancel_campaignId = campaignId, cancel_orderId = orderId \<rparr>)"

subsection \<open>The scheduler's cancel, which the client calls\<close>

text \<open>
  Modelled from the spec: the status of an order in the scheduler, which is not among the
  client sources. ``status (pending, executing, then completed, failed or cancelled)''.
\<close>

datatype order_status = Pending | Executing | Completed | Failed | Cancelled

text \<open>
  Modelled from the spec: the scheduler's error taxonomy. ``ValidationError,
  AuthorizationError, NotFoundError, InvalidRouteError / InvalidStateError / ConflictError''.
\<close>

datatype engine_error =
    ValidationError | AuthorizationError | NotFoundError
  | InvalidRouteError | InvalidStateError | ConflictError

text \<open>
  Modelled from the spec: an order as the scheduler holds it. Only the status matters to
  cancelling; the other fields of the order are the record's extension.
\<close>

record engine_order =
  engine_status :: order_status

text \<open>
  Modelled from the spec: an order's status is ``terminal once non-pending-non-executing''.
\<close>

definition is_terminal :: "order_status \<Rightarrow> bool" where
  "is_terminal s = (s \<noteq> Pending \<and> s \<noteq> Executing)"

text \<open>
  Modelled from the spec: the scheduler's \<^verbatim>\<open>cancel(orderId)\<close>, absent from the sources.
  ``\<^verbatim>\<open>cancel(orderId)\<close> transitions pending/executing to cancelled; fails with
  InvalidStateError if already terminal''.
\<close>

definition cancel_order :: "'a engine_order_scheme \<Rightarrow> engine_error + 'a engine_order_scheme" where
  "cancel_order ord =
     (if is_terminal (engine_status ord) then Inl InvalidStateError
      else Inr (ord\<lparr> engine_status := Cancelled \<rparr>))"

text \<open>
  Modelled from the spec: the status that a status string of the API stands for. The
  strings are the option values of the ledger's status filter.
\<close>

definition status_of_wire :: "string \<Rightarrow> order_status option" where
  "status_of_wire s =
     (if s = ''pending'' then Some Pending
      else if s = ''executing'' then Some Executing
      else if s = ''completed'' then Some Completed
      else if s = ''failed'' then Some Failed
      else if s = ''cancelled'' then Some Cancelled
      else None)"

section \<open>The order catalogue\<close>

text \<open>
  \<^verbatim>\<open>OrderFieldType\<close>, \<^verbatim>\<open>OrderFieldDefinition\<close> and \<^verbatim>\<open>OrderDefinition\<close>. An optional
  property is an option; an option of a select is the pair of its value and its label. The properties
  \<^verbatim>\<open>label\<close> and \<^verbatim>\<open>fields\<close> of an order definition are \<open>order_label\<close> and \<open>order_fields\<close> here.
\<close>

datatype OrderFieldType =
    T_text | T_number | T_textarea | T_checkbox | T_select | T_list | T_movement_legs | T_json

datatype list_value_type = LV_string | LV_number

record OrderFieldDefinition =
  name :: string
  label :: string
  type :: OrderFieldType
  required :: "bool option"
  helper :: "string option"
  options :: "(string \<times> string) list option"
  placeholder :: "string option"
  listValueType :: "list_value_type option"
  defaultValue :: "jsval option"

record OrderDefinition =
  order_label :: string
  requiresArmy :: bool
  description :: string
  order_fields :: "OrderFieldDefinition list"
  advancedNote :: "string option"

text \<open>
  A field literal that gives only \<^verbatim>\<open>name\<close>, \<^verbatim>\<open>label\<close> and \<^verbatim>\<open>type\<close>; the properties a
  literal adds are record updates, in the order of the source.
\<close>

definition field_definition :: "string \<Rightarrow> string \<Rightarrow> OrderFieldType \<Rightarrow> OrderFieldDefinition" where
  "field_definition n l t =
     \<lparr> name = n, label = l, type = t, required = None, helper = None, options = None,
       placeholder = None, listValueType = None, defaultValue = None \<rparr>"

definition move_order :: OrderDefinition where
  "move_order =
     \<lparr> order_label = ''March'',
       requiresArmy = True,
       description = ''Plan a series of legs to reposition an army.'',
       order_fields =
         [(field_definition ''movement_type'' ''Movement Style'' T_select)
           \<lparr> options := Some [(''standard'', ''Standard''), (''forced'', ''Forced March''), (''night'', ''Night March'')],
             defaultValue := Some (JStr ''standard''),
             helper := Some ''Forced marches strain morale; night marches risk mishaps.'' \<rparr>,
          (field_definition ''weather_modifier'' ''Weather Modifier'' T_number)
           \<lparr> defaultValue := Some (JNum (Fin 0)),
             helper := Some ''Negative values slow travel; positive values speed it.'' \<rparr>,
          (field_definition ''legs'' ''Legs'' T_movement_legs)
           \<lparr> helper := Some ''Add each hex transition with its distance.'' \<rparr>],
       advancedNote = None \<rparr>"

definition rest_order :: OrderDefinition where
  "rest_order =
     \<lparr> order_label = ''Rest'',
       requiresArmy = True,
       description = ''Recover morale and readiness by remaining in place.'',
       order_fields =
         [(field_definition ''duration_days'' ''Days of Rest'' T_number)
           \<lparr> defaultValue := Some (JNum (Fin 1)),
             helper := Some ''Army will remain idle for this many days.'' \<rparr>],
       advancedNote = None \<rparr>"

definition forage_order :: OrderDefinition where
  "forage_order =
     \<lparr> order_label = ''Forage'',
       requiresArmy = True,
       description = ''Gather supplies from neighbouring hexes.'',
       order_fields =
         [(field_definition ''hex_ids'' ''Hex IDs'' T_list)
           \<lparr> listValueType := Some LV_number,
             placeholder := Some ''12, 15, 18'',
             helper := Some ''Comma-separated hex identifiers for the foraging route.'' \<rparr>],
       advancedNote = None \<rparr>"

definition torch_order :: OrderDefinition where
  "torch_order =
     \<lparr> order_label = ''Torch'',
       requiresArmy = True,
       description = ''Burn and devastate selected hexes.'',
       order_fields =
         [(field_definition ''hex_ids'' ''Hex IDs'' T_list)
           \<lparr> listValueType := Some LV_number,
             placeholder := Some ''12, 15, 18'' \<rparr>],
       advancedNote = None \<rparr>"

definition supply_transfer_order :: OrderDefinition where
  "supply_transfer_order =
     \<lparr> order_label = ''Transfer Supplies'',
       requiresArmy = True,
       description = ''Share rations with an allied army.'',
       order_fields =
         [(field_definition ''target_army_id'' ''Recipient Army ID'' T_number)
           \<lparr> required := Some True \<rparr>,
          (field_definition ''amount'' ''Amount of Supplies'' T_number)
           \<lparr> required := Some True \<rparr>],
       advancedNote = None \<rparr>"

definition besiege_order :: OrderDefinition where
  "besiege_order =
     \<lparr> order_label = ''Lay Siege'',
       requiresArmy = True,
       description = ''Begin or reinforce a siege on a stronghold.'',
       order_fields =
         [(field_definition ''stronghold_id'' ''Stronghold ID'' T_number)
           \<lparr> required := Some True \<rparr>,
          (field_definition ''siege_engines'' ''Siege Engines Committed'' T_number)
           \<lparr> helper := Some ''Bonus applied to threshold reduction.'' \<rparr>],
       advancedNote = None \<rparr>"

definition assault_order :: OrderDefinition where
  "assault_order =
     \<lparr> order_label = ''Assault'',
       requiresArmy = True,
       description = ''Resolve a full assault on a besieged stronghold.'',
       order_fields =
         [(field_definition ''stronghold_id'' ''Stronghold ID'' T_number)
           \<lparr> required := Some True \<rparr>,
          field_definition ''pillage'' ''Pillage on success'' T_checkbox,
          (field_definition ''attacker_modifier'' ''Attacker Modifier'' T_number)
           \<lparr> defaultValue := Some (JNum (Fin 0)) \<rparr>,
          (field_definition ''defender_modifier'' ''Defender Modifier'' T_number)
           \<lparr> defaultValue := Some (JNum (Fin 0)) \<rparr>,
          (field_definition ''attacker_fixed_roll'' ''Attacker Fixed Roll'' T_number)
           \<lparr> helper := Some ''Optional deterministic roll for testing.'' \<rparr>,
          field_definition ''defender_fixed_roll'' ''Defender Fixed Roll'' T_number],
       advancedNote = None \<rparr>"

definition embark_order :: OrderDefinition where
  "embark_order =
     \<lparr> order_label = ''Embark'',
       requiresArmy = True,
       description = ''Load troops onto a transport fleet.'',
       order_fields =
         [(field_definition ''ship_id'' ''Ship ID'' T_number)
           \<lparr> required := Some True \<rparr>],
       advancedNote = None \<rparr>"

definition disembark_order :: OrderDefinition where
  "disembark_order =
     \<lparr> order_label = ''Disembark'',
       requiresArmy = True,
       description = ''Unload troops from a transport fleet.'',
       order_fields =
         [(field_definition ''ship_id'' ''Ship ID'' T_number)
           \<lparr> required := Some True \<rparr>],
       advancedNote = None \<rparr>"

definition naval_move_order :: OrderDefinition where
  "naval_move_order =
     \<lparr> order_label = ''Naval Move'',
       requiresArmy = False,
       description = ''Direct a fleet along a plotted course.'',
       order_fields =
         [(field_definition ''ship_id'' ''Ship ID'' T_number)
           \<lparr> required := Some True \<rparr>,
          (field_definition ''route'' ''Route Hex IDs'' T_list)
           \<lparr> listValueType := Some LV_number,
             placeholder := Some ''45, 46, 52'' \<rparr>],
       advancedNote = None \<rparr>"

definition send_message_order :: OrderDefinition where
  "send_message_order =
     \<lparr> order_label = ''Dispatch Message'',
       requiresArmy = False,
       description = ''Send a courier between commanders.'',
       order_fields =
         [(field_definition ''recipient_id'' ''Recipient Commander ID'' T_number)
           \<lparr> required := Some True \<rparr>,
          (field_definition ''content'' ''Message'' T_textarea)
           \<lparr> required := Some True \<rparr>,
          (field_definition ''territory_type'' ''Territory'' T_select)
           \<lparr> options := Some [(''friendly'', ''Friendly''), (''neutral'', ''Neutral''), (''hostile'', ''Hostile'')],
             defaultValue := Some (JStr ''friendly'') \<rparr>],
       advancedNote = None \<rparr>"

definition launch_operation_order :: OrderDefinition where
  "launch_operation_order =
     \<lparr> order_label = ''Launch Operation'',
       requiresArmy = False,
       description = ''Resolve intelligence, sabotage, or assassination missions.'',
       order_fields =
         [(field_definition ''operation_type'' ''Operation Type'' T_select)
           \<lparr> options := Some [(''intelligence'', ''Intelligence''), (''sabotage'', ''Sabotage''), (''assassination'', ''Assassination'')],
             defaultValue := Some (JStr ''intelligence'') \<rparr>,
          (field_definition ''target_descriptor'' ''Target Descriptor (JSON)'' T_json)
           \<lparr> helper := Some (''Describe the target in JSON, e.g. {'' @ [CHR 0x22] @ ''stronghold_id'' @ [CHR 0x22] @ '': 12}.'') \<rparr>,
          (field_definition ''difficulty_modifier'' ''Difficulty Modifier'' T_number)
           \<lparr> defaultValue := Some (JNum (Fin 0)) \<rparr>,
          (field_definition ''loot_cost'' ''Loot Cost'' T_number)
           \<lparr> helper := Some ''Defaults to rulebook value if omitted.'' \<rparr>,
          (field_definition ''territory_type'' ''Territory'' T_select)
           \<lparr> options := Some [(''friendly'', ''Friendly''), (''neutral'', ''Neutral''), (''hostile'', ''Hostile'')],
             defaultValue := Some (JStr ''friendly'') \<rparr>,
          (field_definition ''complexity'' ''Operation Complexity'' T_select)
           \<lparr> options := Some [(''standard'', ''Standard''), (''complex'', ''Complex''), (''audacious'', ''Audacious'')],
             defaultValue := Some (JStr ''standard'') \<rparr>],
       advancedNote = Some ''Provide operation_id to continue an existing plot.'' \<rparr>"

definition raise_army_order :: OrderDefinition where
  "raise_army_order =
     \<lparr> order_label = ''Raise Army'',
       requiresArmy = False,
       description = ''Launch or complete a recruitment project from a stronghold.'',
       order_fields =
         [(field_definition ''stronghold_id'' ''Stronghold ID'' T_number)
           \<lparr> required := Some True \<rparr>,
          (field_definition ''new_commander_id'' ''Commander ID'' T_number)
           \<lparr> required := Some True \<rparr>,
          (field_definition ''infantry_unit_type_id'' ''Infantry Unit Type ID'' T_number)
           \<lparr> required := Some True \<rparr>,
          (field_definition ''cavalry_unit_type_id'' ''Cavalry Unit Type ID'' T_number)
           \<lparr> helper := Some ''Optional.'' \<rparr>,
          (field_definition ''rally_hex_id'' ''Rally Hex ID'' T_number)
           \<lparr> required := Some True \<rparr>,
          field_definition ''army_name'' ''Army Name'' T_text],
       advancedNote = Some ''If _project_id is returned, re-issue the order with that id to finish recruitment.'' \<rparr>"

definition harry_order :: OrderDefinition where
  "harry_order =
     \<lparr> order_label = ''Harry'',
       requiresArmy = True,
       description = ''Conduct raiding actions with selected detachments.'',
       order_fields =
         [(field_definition ''detachment_ids'' ''Detachment IDs'' T_list)
           \<lparr> listValueType := Some LV_number,
             placeholder := Some ''11, 12'',
             helper := Some ''Detachment identifiers belonging to the acting army.'' \<rparr>,
          (field_definition ''target_army_id'' ''Target Army ID'' T_number)
           \<lparr> required := Some True \<rparr>,
          (field_definition ''objective'' ''Objective'' T_select)
           \<lparr> options := Some [(''kill'', ''Kill''), (''steal'', ''Steal''), (''burn'', ''Burn'')],
             defaultValue := Some (JStr ''kill'') \<rparr>],
       advancedNote = None \<rparr>"

definition ORDER_DEFINITIONS :: "(string \<times> OrderDefinition) list" where
  "ORDER_DEFINITIONS =
     [(''move'', move_order),
      (''rest'', rest_order),
      (''forage'', forage_order),
      (''torch'', torch_order),
      (''supply_transfer'', supply_transfer_order),
      (''besiege'', besiege_order),
      (''assault'', assault_order),
      (''embark'', embark_order),
      (''disembark'', disembark_order),
      (''naval_move'', naval_move_order),
      (''send_message'', send_message_order),
      (''launch_operation'', launch_operation_order),
      (''raise_army'', raise_army_order),
      (''harry'', harry_order)]"

text \<open>\<^verbatim>\<open>ORDER_TYPES = Object.keys(ORDER_DEFINITIONS)\<close>: the keys, in insertion order.\<close>

definition ORDER_TYPES :: "string list" where
  "ORDER_TYPES = map fst ORDER_DEFINITIONS"

text \<open>The values a select offers: the \<^verbatim>\<open>value\<close> of each of its options.\<close>

definition option_values :: "OrderFieldDefinition \<Rightarrow> string list" where
  "option_values f = (case options f of None \<Rightarrow> [] | Some os \<Rightarrow> map fst os)"

subsection \<open>The scheduler's check of the order type\<close>

text \<open>
  Modelled from the spec: the order-type check of the scheduler's \<^verbatim>\<open>submit\<close>, absent from
  the sources. ``order_type (closed set: move, rest, forage, torch, supply_transfer,
  besiege, assault, embark, disembark, naval_move, send_message, launch_operation,
  raise_army, harry)''; ``unrecognized order_type values fail with ValidationError''.
\<close>

definition spec_order_types :: "string set" where
  "spec_order_types =
     {''move'', ''rest'', ''forage'', ''torch'', ''supply_transfer'', ''besiege'', ''assault'',
      ''embark'', ''disembark'', ''naval_move'', ''send_message'', ''launch_operation'',
      ''raise_army'', ''harry''}"

text \<open>
  Modelled from the spec: ``unrecognized order_type values fail with ValidationError'';
  a recognized one passes this check.
\<close>

definition check_order_type :: "string \<Rightarrow> engine_error + string" where
  "check_order_type t = (if t \<in> spec_order_types then Inr t else Inl ValidationError)"

section \<open>OrderBuilder: the order form\<close>

record MovementLegForm =
  to_hex_id :: string
  distance_miles :: string
  on_road :: bool
  has_river_ford :: bool
  is_night :: bool
  has_fork :: bool
  alternate_hex_id :: string

definition defaultLeg :: MovementLegForm where
  "defaultLeg =
     \<lparr> to_hex_id = '''', distance_miles = '''', on_road = True, has_river_ford = False,
       is_night = False, has_fork = False, alternate_hex_id = '''' \<rparr>"

text \<open>
  The component's state (\<^verbatim>\<open>useState\<close>). \<^verbatim>\<open>fieldState\<close> is an object used as a dictionary:
  an association list, read with \<^verbatim>\<open>fieldState[name]\<close> (\<^verbatim>\<open>undefined\<close> for a missing key) and
  written by spreading. The state variable \<^verbatim>\<open>priority\<close> is \<open>priority_state\<close> here.
\<close>

record builder_state =
  orderType :: string
  fieldState :: "(string \<times> jsval) list"
  legs :: "MovementLegForm list"
  commanderId :: "jsnum option"
  executeDay :: string
  executePart :: string
  priority_state :: jsnum
  error :: "string option"

definition read_field :: "(string \<times> jsval) list \<Rightarrow> string \<Rightarrow> jsval" where
  "read_field fs n = (case map_of fs n of None \<Rightarrow> Undefined | Some v \<Rightarrow> v)"

subsection \<open>resetFields and the state setters\<close>

definition base_value :: "OrderFieldDefinition \<Rightarrow> jsval" where
  "base_value field =
     (if type field = T_checkbox then
        JBool (js_Boolean (case defaultValue field of None \<Rightarrow> Undefined | Some d \<Rightarrow> d))
      else if type field = T_movement_legs then JArr []
      else if type field = T_number then
        (case defaultValue field of None \<Rightarrow> JStr '''' | Some d \<Rightarrow> d)
      else if type field = T_select then
        (case defaultValue field of
           Some d \<Rightarrow> d
         | None \<Rightarrow> (case options field of
                      Some ((v, l) # os) \<Rightarrow> JStr v
                    | _ \<Rightarrow> JStr ''''))
      else (case defaultValue field of None \<Rightarrow> JStr '''' | Some d \<Rightarrow> d))"

definition reset_base :: "OrderFieldDefinition list \<Rightarrow> (string \<times> jsval) list" where
  "reset_base fs = foldl (\<lambda>base field. AList.update (name field) (base_value field) base) [] fs"

definition resetFields :: "OrderDefinition \<Rightarrow> builder_state \<Rightarrow> builder_state" where
  "resetFields definition st =
     (let st1 = st\<lparr> fieldState := reset_base (order_fields definition) \<rparr>;
          st2 = (if list_ex (\<lambda>field. type field = T_movement_legs) (order_fields definition)
                 then st1\<lparr> legs := [defaultLeg] \<rparr> else st1)
      in st2\<lparr> error := None \<rparr>)"

definition updateField :: "string \<Rightarrow> jsval \<Rightarrow> builder_state \<Rightarrow> builder_state" where
  "updateField n v st = st\<lparr> fieldState := AList.update n v (fieldState st) \<rparr>"

definition addLeg :: "builder_state \<Rightarrow> builder_state" where
  "addLeg st = st\<lparr> legs := legs st @ [defaultLeg] \<rparr>"

definition removeLeg :: "nat \<Rightarrow> builder_state \<Rightarrow> builder_state" where
  "removeLeg index st =
     st\<lparr> legs := map snd (filter (\<lambda>(idx, leg). idx \<noteq> index) (enumerate 0 (legs st))) \<rparr>"

text \<open>\<^verbatim>\<open>updateLeg(index, patch)\<close>: the patch is a function on the row (the spread of a partial row).\<close>

definition updateLeg ::
  "nat \<Rightarrow> (MovementLegForm \<Rightarrow> MovementLegForm) \<Rightarrow> builder_state \<Rightarrow> builder_state" where
  "updateLeg index patch st =
     st\<lparr> legs := map (\<lambda>(idx, leg). if idx = index then patch leg else leg)
                     (enumerate 0 (legs st)) \<rparr>"

subsection \<open>handleSubmit\<close>

text \<open>The rows with both texts filled in, each turned into the leg object that is sent.\<close>

definition leg_filled :: "builtins \<Rightarrow> MovementLegForm \<Rightarrow> bool" where
  "leg_filled B leg = (trim B (to_hex_id leg) \<noteq> [] \<and> trim B (distance_miles leg) \<noteq> [])"

definition prepareLeg :: "builtins \<Rightarrow> MovementLegForm \<Rightarrow> jsval" where
  "prepareLeg B leg =
     JObj [(''to_hex_id'', JNum (js_Number B (JStr (to_hex_id leg)))),
           (''distance_miles'', JNum (js_Number B (JStr (distance_miles leg)))),
           (''on_road'', JBool (on_road leg)),
           (''has_river_ford'', JBool (has_river_ford leg)),
           (''is_night'', JBool (is_night leg)),
           (''has_fork'', JBool (has_fork leg)),
           (''alternate_hex_id'',
              if alternate_hex_id leg \<noteq> []
              then JNum (js_Number B (JStr (alternate_hex_id leg))) else Undefined)]"

definition preparedLegs :: "builtins \<Rightarrow> MovementLegForm list \<Rightarrow> jsval list" where
  "preparedLegs B ls = map (prepareLeg B) (filter (leg_filled B) ls)"

text \<open>\<^verbatim>\<open>raw.split(",")\<close>: the pieces between the separators; one empty piece for the empty string.\<close>

fun split_on :: "char \<Rightarrow> string \<Rightarrow> string list" where
  "split_on c [] = [[]]"
| "split_on c (x # xs) =
     (if x = c then [] # split_on c xs
      else (case split_on c xs of w # ws \<Rightarrow> (x # w) # ws | [] \<Rightarrow> [[x]]))"

text \<open>
  One turn of the loop over \<^verbatim>\<open>orderDefinition.fields\<close>: \<open>Inl\<close> is \<^verbatim>\<open>setError(msg); return\<close>,
  \<open>Inr\<close> is the \<^verbatim>\<open>parameters\<close> object at the \<^verbatim>\<open>continue\<close> or at the end of the body.
\<close>

definition processField ::
  "builtins \<Rightarrow> string \<Rightarrow> MovementLegForm list \<Rightarrow> (string \<times> jsval) list \<Rightarrow>
   OrderFieldDefinition \<Rightarrow> (string \<times> jsval) list \<Rightarrow> string + (string \<times> jsval) list" where
  "processField B ot ls fs field ps =
     (let v = read_field fs (name field) in
      if type field = T_movement_legs then
        (if ot = ''move'' \<and> length (preparedLegs B ls) = 0
         then Inl ''Provide at least one movement leg.''
         else Inr (AList.update (name field) (JArr (preparedLegs B ls)) ps))
      else if type field = T_checkbox then
        Inr (AList.update (name field) (JBool (js_Boolean v)) ps)
      else if type field = T_list then
        (let raw = (case v of JStr s \<Rightarrow> s | _ \<Rightarrow> '''');
             entries = filter (\<lambda>e. e \<noteq> []) (map (trim B) (split_on CHR '','' raw))
         in Inr (AList.update (name field)
                  (if listValueType field = Some LV_number
                   then JArr (map (\<lambda>e. JNum (js_Number B (JStr e))) entries)
                   else JArr (map JStr entries)) ps))
      else if type field = T_json then
        (if \<not> js_Boolean v \<or> v = JStr '''' then Inr (AList.update (name field) (JObj []) ps)
         else (case JSON_parse B (js_String B v) of
                 None \<Rightarrow> Inl (''Invalid JSON for '' @ label field)
               | Some parsed \<Rightarrow> Inr (AList.update (name field) parsed ps)))
      else if type field = T_number then
        (if v = JStr '''' \<or> v = Null \<or> v = Undefined then Inr ps
         else (let numeric = js_Number B v in
               if \<not> Number_isFinite numeric then Inl (label field @ '' must be a number.'')
               else Inr (AList.update (name field) (JNum numeric) ps)))
      else if type field = T_select \<or> type field = T_text \<or> type field = T_textarea then
        (if (case v of JStr s \<Rightarrow> trim B s = [] | _ \<Rightarrow> False) \<and> required field = Some True
         then Inl (label field @ '' is required.'')
         else if v \<noteq> Undefined \<and> v \<noteq> JStr '''' then Inr (AList.update (name field) v ps)
         else Inr ps)
      else Inr ps)"

fun processFields ::
  "builtins \<Rightarrow> string \<Rightarrow> MovementLegForm list \<Rightarrow> (string \<times> jsval) list \<Rightarrow>
   OrderFieldDefinition list \<Rightarrow> (string \<times> jsval) list \<Rightarrow> string + (string \<times> jsval) list" where
  "processFields B ot ls fs [] ps = Inr ps"
| "processFields B ot ls fs (field # rest) ps =
     (case processField B ot ls fs field ps of
        Inl msg \<Rightarrow> Inl msg
      | Inr ps' \<Rightarrow> processFields B ot ls fs rest ps')"

text \<open>
  The handler. \<^verbatim>\<open>ORDER_DEFINITIONS[orderType]\<close> is \<^verbatim>\<open>undefined\<close> for a string that is not a
  key, and reading \<^verbatim>\<open>requiresArmy\<close> of it throws a TypeError before anything is sent. The
  catalogue is a plain object, so the names it inherits from \<^verbatim>\<open>Object.prototype\<close> read as
  a value without \<^verbatim>\<open>requiresArmy\<close> and without \<^verbatim>\<open>fields\<close>: the army guard passes, the
  commander guard applies, and the loop over the missing \<^verbatim>\<open>fields\<close> throws.
  Otherwise the handler ends in \<^verbatim>\<open>setError(msg); return\<close> or in
  \<^verbatim>\<open>createOrder.mutate(payload)\<close>, which posts the payload to the campaign's \<^verbatim>\<open>/orders\<close>.
\<close>

definition Object_prototype_keys :: "string list" where
  "Object_prototype_keys =
     [''constructor'', ''__proto__'', ''__defineGetter__'', ''__defineSetter__'',
      ''__lookupGetter__'', ''__lookupSetter__'', ''hasOwnProperty'', ''isPrototypeOf'',
      ''propertyIsEnumerable'', ''toLocaleString'', ''toString'', ''valueOf'']"

datatype submit_outcome = Rejected string | Threw_TypeError | Submitted OrderCreateRequest

definition handleSubmit :: "builtins \<Rightarrow> jsnum option \<Rightarrow> builder_state \<Rightarrow> submit_outcome" where
  "handleSubmit B selectedArmyId st =
     (case map_of ORDER_DEFINITIONS (orderType st) of
        None \<Rightarrow>
          (if orderType st \<in> set Object_prototype_keys \<and> falsy_opt (commanderId st)
           then Rejected ''Select a commander to authorise the order.''
           else Threw_TypeError)
      | Some orderDefinition \<Rightarrow>
          if requiresArmy orderDefinition \<and> falsy_opt selectedArmyId
          then Rejected ''Select an army to issue this order.''
          else if falsy_opt (commanderId st)
          then Rejected ''Select a commander to authorise the order.''
          else
            (case processFields B (orderType st) (legs st) (fieldState st)
                    (order_fields orderDefinition) [] of
               Inl msg \<Rightarrow> Rejected msg
             | Inr ps \<Rightarrow>
                 (let executeDayValue =
                        (if trim B (executeDay st) \<noteq> []
                         then Some (js_Number B (JStr (executeDay st))) else None)
                  in if (case executeDayValue of None \<Rightarrow> False | Some n \<Rightarrow> Number_isNaN n)
                     then Rejected ''Execution day must be numeric.''
                     else Submitted
                       \<lparr> army_id = (if requiresArmy orderDefinition then selectedArmyId
                                    else (case selectedArmyId of None \<Rightarrow> None | Some a \<Rightarrow> Some a)),
                         commander_id = commanderId st,
                         order_type = orderType st,
                         parameters = ps,
                         execute_day = executeDayValue,
                         execute_part =
                           (if executePart st \<noteq> [] then Some (executePart st) else None),
                         priority = priority_state st \<rparr>)))"

text \<open>
  The values for which the number branch of the loop leaves the field out:
  \<^verbatim>\<open>value === "" || value === null || value === undefined\<close>.
\<close>

definition blank_input :: "jsval \<Rightarrow> bool" where
  "blank_input v = (v = JStr '''' \<or> v = Null \<or> v = Undefined)"

text \<open>The field of a definition with a given name (names are unique within a definition).\<close>

definition field_named :: "OrderDefinition \<Rightarrow> string \<Rightarrow> OrderFieldDefinition option" where
  "field_named d n = find (\<lambda>f. name f = n) (order_fields d)"

text \<open>
  The shape of a leg as the movement rules read it: an object with exactly the seven
  properties, numbers for the destination and the distance, booleans for the four flags,
  and a number or nothing for the alternate hex.
\<close>

definition has_number :: "(string \<times> jsval) list \<Rightarrow> string \<Rightarrow> bool" where
  "has_number kvs k = (case map_of kvs k of Some (JNum n) \<Rightarrow> True | _ \<Rightarrow> False)"

definition has_boolean :: "(string \<times> jsval) list \<Rightarrow> string \<Rightarrow> bool" where
  "has_boolean kvs k = (case map_of kvs k of Some (JBool b) \<Rightarrow> True | _ \<Rightarrow> False)"

definition number_or_absent :: "(string \<times> jsval) list \<Rightarrow> string \<Rightarrow> bool" where
  "number_or_absent kvs k =
     (case map_of kvs k of
        None \<Rightarrow> True | Some Undefined \<Rightarrow> True | Some (JNum n) \<Rightarrow> True | _ \<Rightarrow> False)"

definition leg_shape :: "jsval \<Rightarrow> bool" where
  "leg_shape v =
     (case v of
        JObj kvs \<Rightarrow>
          map fst kvs = [''to_hex_id'', ''distance_miles'', ''on_road'', ''has_river_ford'',
                         ''is_night'', ''has_fork'', ''alternate_hex_id'']
          \<and> has_number kvs ''to_hex_id'' \<and> has_number kvs ''distance_miles''
          \<and> has_boolean kvs ''on_road'' \<and> has_boolean kvs ''has_river_ford''
          \<and> has_boolean kvs ''is_night'' \<and> has_boolean kvs ''has_fork''
          \<and> number_or_absent kvs ''alternate_hex_id''
      | _ \<Rightarrow> False)"

subsection \<open>The form as a state machine\<close>

text \<open>
  The state after \<^verbatim>\<open>useState\<close>, the events the rendered form can raise, and what each
  does to the state. \<^verbatim>\<open>ORDER_TYPES[0]\<close> is the first key. The order-type select only
  calls \<^verbatim>\<open>setOrderType\<close>; the effect on \<^verbatim>\<open>[orderDefinition]\<close>, which runs
  \<^verbatim>\<open>resetFields(orderDefinition)\<close> after the mount and after a change of the definition, is
  an event of its own, \<open>RunResetEffect\<close>, so that no assumption is made on when it
  runs. \<^verbatim>\<open>onSuccess\<close> of the mutation clears the schedule inputs and runs
  \<^verbatim>\<open>resetFields\<close> too. \<^verbatim>\<open>setCommanderId\<close> is called by the commander select and by the
  effect that follows the selected army: both are the event \<open>SetCommander\<close>, with any
  value. The selected army is a property of the parent, read at each submission.
\<close>

definition mount_state :: builder_state where
  "mount_state =
     \<lparr> orderType = hd ORDER_TYPES, fieldState = [], legs = [defaultLeg], commanderId = None,
       executeDay = '''', executePart = '''', priority_state = Fin 0, error = None \<rparr>"

datatype ui_event =
    ChangeOrderType string
  | RunResetEffect
  | ChangeField string jsval
  | AddLeg
  | RemoveLeg nat
  | ChangeLeg nat "MovementLegForm \<Rightarrow> MovementLegForm"
  | SetCommander "jsnum option"
  | ChangeExecuteDay string
  | ChangeExecutePart string
  | ChangePriority jsnum
  | SubmitForm "jsnum option"
  | OrderCreated
  | OrderFailed string

text \<open>
  What the control rendered for a field passes to \<^verbatim>\<open>updateField\<close>: a checkbox its
  \<^verbatim>\<open>checked\<close> flag, a select the value of one of the options rendered from
  \<^verbatim>\<open>field.options\<close>, every other input its text; the legs have their own setters.
\<close>

definition control_emits :: "OrderFieldDefinition \<Rightarrow> jsval \<Rightarrow> bool" where
  "control_emits f v =
     (if type f = T_movement_legs then False
      else if type f = T_checkbox then (case v of JBool b \<Rightarrow> True | _ \<Rightarrow> False)
      else if type f = T_select then
        (case v of JStr s \<Rightarrow> s \<in> set (option_values f) | _ \<Rightarrow> False)
      else (case v of JStr s \<Rightarrow> True | _ \<Rightarrow> False))"

fun emitted :: "builder_state \<Rightarrow> ui_event \<Rightarrow> bool" where
  "emitted st (ChangeOrderType t) = (t \<in> set ORDER_TYPES)"
| "emitted st (ChangeField n v) =
     (case map_of ORDER_DEFINITIONS (orderType st) of
        None \<Rightarrow> False
      | Some d \<Rightarrow> list_ex (\<lambda>f. name f = n \<and> control_emits f v) (order_fields d))"
| "emitted st (RemoveLeg index) = (length (legs st) \<noteq> 1)"
| "emitted st ev = True"

definition reset_current :: "builder_state \<Rightarrow> builder_state" where
  "reset_current st =
     (case map_of ORDER_DEFINITIONS (orderType st) of
        None \<Rightarrow> st
      | Some d \<Rightarrow> resetFields d st)"

fun step :: "builtins \<Rightarrow> builder_state \<Rightarrow> ui_event \<Rightarrow> builder_state" where
  "step B st (ChangeOrderType t) = st\<lparr> orderType := t \<rparr>"
| "step B st RunResetEffect = reset_current st"
| "step B st (ChangeField n v) = updateField n v st"
| "step B st AddLeg = addLeg st"
| "step B st (RemoveLeg index) = removeLeg index st"
| "step B st (ChangeLeg index patch) = updateLeg index patch st"
| "step B st (SetCommander c) = st\<lparr> commanderId := c \<rparr>"
| "step B st (ChangeExecuteDay s) = st\<lparr> executeDay := s \<rparr>"
| "step B st (ChangeExecutePart s) = st\<lparr> executePart := s \<rparr>"
| "step B st (ChangePriority n) = st\<lparr> priority_state := n \<rparr>"
| "step B st (SubmitForm selectedArmyId) =
     st\<lparr> error := (case handleSubmit B selectedArmyId st of
                      Rejected msg \<Rightarrow> Some msg | _ \<Rightarrow> None) \<rparr>"
| "step B st OrderCreated =
     reset_current (st\<lparr> priority_state := Fin 0, executeDay := '''', executePart := '''' \<rparr>)"
| "step B st (OrderFailed msg) = st\<lparr> error := Some msg \<rparr>"

inductive reachable :: "builtins \<Rightarrow> builder_state \<Rightarrow> bool" for B :: builtins where
  mounted: "reachable B mount_state"
| stepped: "reachable B st \<Longrightarrow> emitted st ev \<Longrightarrow> reachable B (step B st ev)"

text \<open>
  The invariant of the form: the order type is a key of the catalogue, and under the name
  of every select of the catalogue the field state holds nothing or the value of one of
  that select's options.
\<close>

definition catalogue_fields :: "OrderFieldDefinition list" where
  "catalogue_fields = concat (map (\<lambda>(t, d). order_fields d) ORDER_DEFINITIONS)"

definition selects_hold_options :: "OrderFieldDefinition list \<Rightarrow> (string \<times> jsval) list \<Rightarrow> bool" where
  "selects_hold_options fl fs =
     list_all (\<lambda>f. type f = T_select \<longrightarrow>
                 (case map_of fs (name f) of
                    None \<Rightarrow> True
                  | Some v \<Rightarrow> v \<in> JStr ` set (option_values f))) fl"

definition form_invariant :: "builder_state \<Rightarrow> bool" where
  "form_invariant st =
     (orderType st \<in> set ORDER_TYPES \<and> selects_hold_options catalogue_fields (fieldState st))"

subsection \<open>Concrete form states\<close>

definition rest_form :: builder_state where
  "rest_form =
     \<lparr> orderType = ''rest'', fieldState = [(''duration_days'', JNum (Fin 1))],
       legs = [defaultLeg], commanderId = Some (Fin 2), executeDay = '''', executePart = '''',
       priority_state = Fin 0, error = None \<rparr>"

definition besiege_form :: "jsval \<Rightarrow> builder_state" where
  "besiege_form stronghold =
     \<lparr> orderType = ''besiege'',
       fieldState = [(''stronghold_id'', stronghold), (''siege_engines'', JStr '''')],
       legs = [defaultLeg], commanderId = Some (Fin 2), executeDay = '''', executePart = '''',
       priority_state = Fin 0, error = None \<rparr>"

definition move_form :: "MovementLegForm list \<Rightarrow> builder_state" where
  "move_form rows =
     \<lparr> orderType = ''move'',
       fieldState = [(''movement_type'', JStr ''standard''), (''weather_modifier'', JNum (Fin 0)),
                     (''legs'', JArr [])],
       legs = rows, commanderId = Some (Fin 2), executeDay = '''', executePart = '''',
       priority_state = Fin 0, error = None \<rparr>"

definition march_row :: MovementLegForm where
  "march_row = defaultLeg\<lparr> to_hex_id := ''14'', distance_miles := ''6.5'' \<rparr>"

definition assault_form :: "jsval \<Rightarrow> jsval \<Rightarrow> jsval \<Rightarrow> builder_state" where
  "assault_form stronghold attacker_roll defender_roll =
     \<lparr> orderType = ''assault'',
       fieldState = [(''stronghold_id'', stronghold), (''pillage'', JBool False),
                     (''attacker_modifier'', JNum (Fin 0)), (''defender_modifier'', JNum (Fin 0)),
                     (''attacker_fixed_roll'', attacker_roll),
                     (''defender_fixed_roll'', defender_roll)],
       legs = [defaultLeg], commanderId = Some (Fin 2), executeDay = '''', executePart = '''',
       priority_state = Fin 0, error = None \<rparr>"

definition message_events :: "ui_event list" where
  "message_events =
     [RunResetEffect, ChangeOrderType ''send_message'', RunResetEffect,
      ChangeField ''recipient_id'' (JStr ''4''),
      ChangeField ''content'' (JStr ''hold the ford''),
      ChangeField ''territory_type'' (JStr ''hostile''), SetCommander (Some (Fin 2))]"

text \<open>A run of events, each raised in the state the previous ones left.\<close>

fun run_emitted :: "builtins \<Rightarrow> builder_state \<Rightarrow> ui_event list \<Rightarrow> bool" where
  "run_emitted B st [] = True"
| "run_emitted B st (ev # evs) = (emitted st ev \<and> run_emitted B (step B st ev) evs)"

text \<open>Three fields of the catalogue, by name.\<close>

definition stronghold_id_field :: OrderFieldDefinition where
  "stronghold_id_field =
     (field_definition ''stronghold_id'' ''Stronghold ID'' T_number) \<lparr> required := Some True \<rparr>"

definition siege_engines_field :: OrderFieldDefinition where
  "siege_engines_field =
     (field_definition ''siege_engines'' ''Siege Engines Committed'' T_number)
       \<lparr> helper := Some ''Bonus applied to threshold reduction.'' \<rparr>"

definition legs_field :: OrderFieldDefinition where
  "legs_field = (field_definition ''legs'' ''Legs'' T_movement_legs)
                  \<lparr> helper := Some ''Add each hex transition with its distance.'' \<rparr>"

section \<open>Theorems\<close>

lemma Number_isFinite_iff: "Number_isFinite n \<longleftrightarrow> (\<exists>x. n = Fin x)"
  by (cases n) auto


text \<open>
  The handler does not itself check for an integer of at least 1: called on the text
  \<^verbatim>\<open>0.5\<close>, which the validated form never passes to it, it would make the request.
\<close>

lemma handleAdvance_alone_half_day:
  "handleAdvance plain_builtins ''0.5'' = AdvanceTick (Fin (1/2))
   \<and> \<not> integer_days_at_least_1 (Fin (1/2))"
proof -
  have half: "js_Number plain_builtins (JStr ''0.5'') = Fin (1/2)"
    by (simp add: plain_builtins_def decimal_StringToNumber_def ascii_trim_def is_space_def
        unsigned_decimal_def is_digit_def digits_value_def)
  have "\<not> Number_isInteger (Fin (1/2))"
    by code_simp
  with half show ?thesis
    by (simp add: handleAdvance_def integer_days_at_least_1_def)
qed





text \<open>
  C3. On the scheduler as the specification describes it, cancelling an order whose
  status is completed, failed or cancelled fails with InvalidStateError, and cancelling a
  pending or executing order succeeds and leaves it cancelled. In the client, the ledger
  renders the cancel control for an order exactly when its status is \<^verbatim>\<open>pending\<close> or
  \<^verbatim>\<open>executing\<close>, a cancel request can only come from such a row, and these are exactly
  the wire statuses on which the scheduler's cancel succeeds.
\<close>

theorem cancel_exactly_for_pending_or_executing:
  "(engine_status ord \<in> {Completed, Failed, Cancelled} \<longrightarrow>
      cancel_order ord = Inl InvalidStateError)
   \<and> (engine_status ord \<in> {Pending, Executing} \<longrightarrow>
      cancel_order ord = Inr (ord\<lparr> engine_status := Cancelled \<rparr>))
   \<and> (OrderList_cancel_cell row isCancelling \<noteq> NoCancelControl
        \<longleftrightarrow> status row = ''pending'' \<or> status row = ''executing'')
   \<and> (click_cancel campaignId (OrderList_cancel_cell row isCancelling) \<noteq> None
        \<longrightarrow> status row = ''pending'' \<or> status row = ''executing'')
   \<and> (OrderList_cancel_cell row isCancelling \<noteq> NoCancelControl
        \<longleftrightarrow> (\<exists>s. status_of_wire (status row) = Some s
               \<and> (\<exists>ord'. cancel_order \<lparr> engine_status = s \<rparr> = Inr ord')))"
proof -
  have terminal: "engine_status ord \<in> {Completed, Failed, Cancelled} \<longrightarrow>
      cancel_order ord = Inl InvalidStateError"
    by (auto simp: cancel_order_def is_terminal_def)
  have live: "engine_status ord \<in> {Pending, Executing} \<longrightarrow>
      cancel_order ord = Inr (ord\<lparr> engine_status := Cancelled \<rparr>)"
    by (auto simp: cancel_order_def is_terminal_def)
  have shown: "OrderList_cancel_cell row isCancelling \<noteq> NoCancelControl
        \<longleftrightarrow> status row = ''pending'' \<or> status row = ''executing''"
    by (simp add: OrderList_cancel_cell_def)
  have clicked: "click_cancel campaignId (OrderList_cancel_cell row isCancelling) \<noteq> None
        \<longrightarrow> status row = ''pending'' \<or> status row = ''executing''"
    by (simp add: OrderList_cancel_cell_def)
  have agree: "(status row = ''pending'' \<or> status row = ''executing'')
        \<longleftrightarrow> (\<exists>s. status_of_wire (status row) = Some s
               \<and> (\<exists>ord'. cancel_order \<lparr> engine_status = s \<rparr> = Inr ord'))"
    by (auto simp: status_of_wire_def cancel_order_def is_terminal_def split: if_splits)
  from terminal live shown clicked agree show ?thesis by blast
qed

theorem cancel_exactly_for_pending_or_executing_witness:
  "cancel_order \<lparr> engine_status = Failed \<rparr> = Inl InvalidStateError
   \<and> cancel_order \<lparr> engine_status = Executing \<rparr> = Inr \<lparr> engine_status = Cancelled \<rparr>
   \<and> OrderList_cancel_cell
        \<lparr> army_id = None, commander_id = Some (Fin 1), order_type = ''rest'', parameters = [],
          execute_day = None, execute_part = None, priority = Fin 0, order_id = Fin 7,
          status = ''pending'', issued_at = [], execute_at = [], result = None \<rparr> False
       = CancelButton (Fin 7) False
   \<and> click_cancel (Fin 2) (OrderList_cancel_cell
        \<lparr> army_id = None, commander_id = Some (Fin 1), order_type = ''rest'', parameters = [],
          execute_day = None, execute_part = None, priority = Fin 0, order_id = Fin 7,
          status = ''pending'', issued_at = [], execute_at = [], result = None \<rparr> False)
       = Some \<lparr> cancel_campaignId = Fin 2, cancel_orderId = Fin 7 \<rparr>"
  using cancel_exactly_for_pending_or_executing
    [of "\<lparr> engine_status = Failed \<rparr>"
        "\<lparr> army_id = None, commander_id = Some (Fin 1), order_type = ''rest'', parameters = [],
          execute_day = None, execute_part = None, priority = Fin 0, order_id = Fin 7,
          status = ''pending'', issued_at = [], execute_at = [], result = None \<rparr>" False "Fin 2"]
    cancel_exactly_for_pending_or_executing
    [of "\<lparr> engine_status = Executing \<rparr>"
        "\<lparr> army_id = None, commander_id = Some (Fin 1), order_type = ''rest'', parameters = [],
          execute_day = None, execute_part = None, priority = Fin 0, order_id = Fin 7,
          status = ''pending'', issued_at = [], execute_at = [], result = None \<rparr>" False "Fin 2"]
  by (simp add: OrderList_cancel_cell_def)

subsection \<open>The catalogue\<close>

lemmas order_defs = move_order_def rest_order_def forage_order_def torch_order_def
  supply_transfer_order_def besiege_order_def assault_order_def embark_order_def
  disembark_order_def naval_move_order_def send_message_order_def launch_operation_order_def
  raise_army_order_def harry_order_def

lemma ORDER_TYPES_list:
  "ORDER_TYPES = [''move'', ''rest'', ''forage'', ''torch'', ''supply_transfer'', ''besiege'',
     ''assault'', ''embark'', ''disembark'', ''naval_move'', ''send_message'',
     ''launch_operation'', ''raise_army'', ''harry'']"
  by (simp add: ORDER_TYPES_def ORDER_DEFINITIONS_def)

lemma set_ORDER_TYPES: "set ORDER_TYPES = spec_order_types"
  unfolding ORDER_TYPES_list spec_order_types_def by simp

lemma distinct_ORDER_TYPES: "distinct ORDER_TYPES"
  unfolding ORDER_TYPES_list by simp

lemma lookup_Some_iff: "(\<exists>d. map_of ORDER_DEFINITIONS t = Some d) \<longleftrightarrow> t \<in> set ORDER_TYPES"
proof -
  have "map_of ORDER_DEFINITIONS t = None \<longleftrightarrow> t \<notin> fst ` set ORDER_DEFINITIONS"
    by (rule map_of_eq_None_iff)
  then show ?thesis by (auto simp: ORDER_TYPES_def)
qed

lemma table_entries:
  "map_of ORDER_DEFINITIONS t = Some d \<Longrightarrow> (t, d) \<in> set ORDER_DEFINITIONS"
  by (rule map_of_SomeD)

lemma table_names_distinct_all:
  "list_all (\<lambda>(t, d). distinct (map name (order_fields d))) ORDER_DEFINITIONS"
  by (simp add: ORDER_DEFINITIONS_def field_definition_def order_defs)

lemma table_names_distinct:
  "map_of ORDER_DEFINITIONS t = Some d \<Longrightarrow> distinct (map name (order_fields d))"
  using table_names_distinct_all table_entries [of t d]
  by (auto simp: list_all_iff)

lemma names_inj:
  "distinct (map name fl) \<Longrightarrow> f \<in> set fl \<Longrightarrow> g \<in> set fl \<Longrightarrow> name f = name g \<Longrightarrow> f = g"
  by (auto simp: distinct_map dest: inj_onD)

lemma table_territory_all:
  "list_all (\<lambda>(t, d). list_all (\<lambda>f. name f = ''territory_type'' \<longrightarrow>
        type f = T_select \<and> option_values f = [''friendly'', ''neutral'', ''hostile''])
                        (order_fields d)) ORDER_DEFINITIONS"
  by (simp add: ORDER_DEFINITIONS_def field_definition_def order_defs option_values_def)

lemma table_territory:
  "map_of ORDER_DEFINITIONS t = Some d \<Longrightarrow> f \<in> set (order_fields d) \<Longrightarrow>
   name f = ''territory_type'' \<Longrightarrow>
   type f = T_select \<and> option_values f = [''friendly'', ''neutral'', ''hostile'']"
  using table_territory_all table_entries [of t d]
  by (auto simp: list_all_iff)

lemma lookup_move: "map_of ORDER_DEFINITIONS ''move'' = Some move_order"
  by (simp add: ORDER_DEFINITIONS_def)

lemma lookup_besiege: "map_of ORDER_DEFINITIONS ''besiege'' = Some besiege_order"
  by (simp add: ORDER_DEFINITIONS_def)

lemma legs_field_in_move:
  "legs_field \<in> set (order_fields move_order)" "type legs_field = T_movement_legs"
  "name legs_field = ''legs''"
  by (simp_all add: move_order_def legs_field_def field_definition_def)

lemma besiege_fields:
  "stronghold_id_field \<in> set (order_fields besiege_order)" "type stronghold_id_field = T_number"
  "name stronghold_id_field = ''stronghold_id''"
  "siege_engines_field \<in> set (order_fields besiege_order)" "type siege_engines_field = T_number"
  "name siege_engines_field = ''siege_engines''"
  by (simp_all add: besiege_order_def stronghold_id_field_def siege_engines_field_def
      field_definition_def)

subsection \<open>The loop over the fields\<close>

text \<open>A turn of the loop writes at most the property named after its field.\<close>

lemma processField_frame:
  "processField B ot ls fs f ps = Inr ps' \<Longrightarrow> n \<noteq> name f \<Longrightarrow> map_of ps' n = map_of ps n"
  by (auto simp: processField_def Let_def update_conv' split: if_splits option.splits)

lemma processFields_frame:
  "processFields B ot ls fs fl ps = Inr ps' \<Longrightarrow> n \<notin> name ` set fl \<Longrightarrow> map_of ps' n = map_of ps n"
proof (induction fl arbitrary: ps)
  case Nil
  then show ?case by simp
next
  case (Cons f fl)
  then obtain ps1 where 1: "processField B ot ls fs f ps = Inr ps1"
    and 2: "processFields B ot ls fs fl ps1 = Inr ps'"
    by (auto split: sum.splits)
  from Cons.prems have "n \<noteq> name f" "n \<notin> name ` set fl" by auto
  with Cons.IH [OF 2] processField_frame [OF 1] show ?case by simp
qed

text \<open>
  When the loop runs to its end over fields with distinct names, the property named
  after a field is what that field's turn left there.
\<close>

lemma processFields_field:
  "processFields B ot ls fs fl ps = Inr ps' \<Longrightarrow> distinct (map name fl) \<Longrightarrow> f \<in> set fl \<Longrightarrow>
   \<exists>ps0 ps1. processField B ot ls fs f ps0 = Inr ps1
      \<and> map_of ps0 (name f) = map_of ps (name f)
      \<and> map_of ps' (name f) = map_of ps1 (name f)"
proof (induction fl arbitrary: ps)
  case Nil
  then show ?case by simp
next
  case (Cons g fl)
  then obtain ps1 where 1: "processField B ot ls fs g ps = Inr ps1"
    and 2: "processFields B ot ls fs fl ps1 = Inr ps'"
    by (auto split: sum.splits)
  show ?case
  proof (cases "f = g")
    case True
    with Cons.prems have "name f \<notin> name ` set fl" by auto
    from processFields_frame [OF 2 this] 1 True show ?thesis by blast
  next
    case False
    with Cons.prems have f: "f \<in> set fl" and d: "distinct (map name fl)" by auto
    from f have "name f \<in> name ` set fl" by (rule imageI)
    with Cons.prems(2) have ne: "name f \<noteq> name g" by auto
    from Cons.IH [OF 2 d f] obtain ps0 ps1' where
      "processField B ot ls fs f ps0 = Inr ps1'" "map_of ps0 (name f) = map_of ps1 (name f)"
      "map_of ps' (name f) = map_of ps1' (name f)" by blast
    with processField_frame [OF 1 ne] show ?thesis by metis
  qed
qed

text \<open>A field whose turn returns early, whatever the parameters so far, ends the loop early.\<close>

lemma processFields_Inl:
  "f \<in> set fl \<Longrightarrow> \<forall>ps. \<exists>msg. processField B ot ls fs f ps = Inl msg \<Longrightarrow>
   \<exists>msg. processFields B ot ls fs fl ps = Inl msg"
proof (induction fl arbitrary: ps)
  case Nil
  then show ?case by simp
next
  case (Cons g fl)
  show ?case
  proof (cases "processField B ot ls fs g ps")
    case (Inl m)
    then show ?thesis by simp
  next
    case (Inr ps1)
    with Cons.prems(2) have "f \<noteq> g" by (metis sum.distinct(1))
    with Cons.prems have "f \<in> set fl" by auto
    from Cons.IH [OF this Cons.prems(2)] Inr show ?thesis by simp
  qed
qed

lemma processField_number:
  assumes "type f = T_number" "processField B ot ls fs f ps0 = Inr ps1"
  shows "(blank_input (read_field fs (name f)) \<and> ps1 = ps0)
       \<or> (\<not> blank_input (read_field fs (name f))
          \<and> (\<exists>x. js_Number B (read_field fs (name f)) = Fin x
                \<and> ps1 = AList.update (name f) (JNum (Fin x)) ps0))"
  using assms
  by (auto simp: processField_def Let_def blank_input_def Number_isFinite_iff split: if_splits)

lemma processField_number_Inl:
  assumes "type f = T_number" "\<not> blank_input (read_field fs (name f))"
    "\<not> Number_isFinite (js_Number B (read_field fs (name f)))"
  shows "\<exists>msg. processField B ot ls fs f ps = Inl msg"
  using assms by (auto simp: processField_def Let_def blank_input_def)

lemma processField_select:
  assumes "type f = T_select" "processField B ot ls fs f ps0 = Inr ps1"
  shows "ps1 = (if read_field fs (name f) \<noteq> Undefined \<and> read_field fs (name f) \<noteq> JStr ''''
                then AList.update (name f) (read_field fs (name f)) ps0 else ps0)"
  using assms by (auto simp: processField_def Let_def split: if_splits)

lemma processField_legs:
  assumes "type f = T_movement_legs" "processField B ot ls fs f ps0 = Inr ps1"
  shows "ps1 = AList.update (name f) (JArr (preparedLegs B ls)) ps0
         \<and> (ot = ''move'' \<longrightarrow> preparedLegs B ls \<noteq> [])"
  using assms by (auto simp: processField_def Let_def split: if_splits)

lemma processField_legs_Inl:
  assumes "type f = T_movement_legs" "preparedLegs B ls = []"
  shows "\<exists>msg. processField B ''move'' ls fs f ps = Inl msg"
  using assms by (simp add: processField_def)

subsection \<open>The handler\<close>

lemma handleSubmit_SubmittedD:
  assumes "handleSubmit B a st = Submitted p"
  shows "\<exists>d. map_of ORDER_DEFINITIONS (orderType st) = Some d
     \<and> processFields B (orderType st) (legs st) (fieldState st) (order_fields d) [] = Inr (parameters p)
     \<and> order_type p = orderType st \<and> commander_id p = commanderId st \<and> army_id p = a
     \<and> \<not> falsy_opt (commanderId st) \<and> (requiresArmy d \<longrightarrow> \<not> falsy_opt a)"
  using assms
  by (auto simp: handleSubmit_def Let_def split: option.splits if_splits sum.splits)

lemma handleSubmit_Inl:
  assumes "map_of ORDER_DEFINITIONS (orderType st) = Some d"
    "processFields B (orderType st) (legs st) (fieldState st) (order_fields d) [] = Inl m"
  shows "\<exists>msg. handleSubmit B a st = Rejected msg"
  using assms by (auto simp: handleSubmit_def)

lemma move_without_legs_rejected:
  assumes "orderType st = ''move''" "preparedLegs B (legs st) = []"
  shows "\<exists>msg. handleSubmit B a st = Rejected msg"
proof -
  have d: "map_of ORDER_DEFINITIONS (orderType st) = Some move_order"
    using assms(1) lookup_move by simp
  from processField_legs_Inl [OF legs_field_in_move(2) assms(2)]
  have "\<forall>ps. \<exists>msg. processField B (orderType st) (legs st) (fieldState st) legs_field ps = Inl msg"
    using assms(1) by simp
  from processFields_Inl [OF legs_field_in_move(1) this] obtain m where
    "processFields B (orderType st) (legs st) (fieldState st) (order_fields move_order) [] = Inl m"
    by blast
  from handleSubmit_Inl [OF d this] show ?thesis .
qed

lemma move_submitted_legs:
  assumes "orderType st = ''move''" "handleSubmit B a st = Submitted p"
  shows "map_of (parameters p) ''legs'' = Some (JArr (preparedLegs B (legs st)))
         \<and> preparedLegs B (legs st) \<noteq> []"
proof -
  have d: "map_of ORDER_DEFINITIONS (orderType st) = Some move_order"
    using assms(1) lookup_move by simp
  from handleSubmit_SubmittedD [OF assms(2)] d
  have run: "processFields B (orderType st) (legs st) (fieldState st) (order_fields move_order) []
             = Inr (parameters p)" by auto
  from processFields_field [OF run table_names_distinct [OF d] legs_field_in_move(1)]
  obtain ps0 ps1 where
    one: "processField B (orderType st) (legs st) (fieldState st) legs_field ps0 = Inr ps1"
    and after: "map_of (parameters p) (name legs_field) = map_of ps1 (name legs_field)"
    by blast
  from processField_legs [OF legs_field_in_move(2) one] assms(1) after show ?thesis
    by (simp add: update_conv' legs_field_in_move(3))
qed

lemma leg_shape_prepareLeg: "leg_shape (prepareLeg B row)"
  by (simp add: leg_shape_def prepareLeg_def has_number_def has_boolean_def number_or_absent_def)

subsection \<open>The form's invariant\<close>

lemma fields_in_catalogue:
  "map_of ORDER_DEFINITIONS t = Some d \<Longrightarrow> f \<in> set (order_fields d) \<Longrightarrow> f \<in> set catalogue_fields"
  using table_entries [of t d] by (force simp: catalogue_fields_def)

text \<open>
  Two fields of the catalogue with the same name, one of them a select, are both selects
  with the same options (the two \<^verbatim>\<open>territory_type\<close> fields); the default of a select is
  one of its options.
\<close>

lemma catalogue_summary:
  "map (\<lambda>f. (name f, type f = T_select, option_values f)) catalogue_fields =
     [(''movement_type'', True, [''standard'', ''forced'', ''night'']),
      (''weather_modifier'', False, []),
      (''legs'', False, []),
      (''duration_days'', False, []),
      (''hex_ids'', False, []),
      (''hex_ids'', False, []),
      (''target_army_id'', False, []),
      (''amount'', False, []),
      (''stronghold_id'', False, []),
      (''siege_engines'', False, []),
      (''stronghold_id'', False, []),
      (''pillage'', False, []),
      (''attacker_modifier'', False, []),
      (''defender_modifier'', False, []),
      (''attacker_fixed_roll'', False, []),
      (''defender_fixed_roll'', False, []),
      (''ship_id'', False, []),
      (''ship_id'', False, []),
      (''ship_id'', False, []),
      (''route'', False, []),
      (''recipient_id'', False, []),
      (''content'', False, []),
      (''territory_type'', True, [''friendly'', ''neutral'', ''hostile'']),
      (''operation_type'', True, [''intelligence'', ''sabotage'', ''assassination'']),
      (''target_descriptor'', False, []),
      (''difficulty_modifier'', False, []),
      (''loot_cost'', False, []),
      (''territory_type'', True, [''friendly'', ''neutral'', ''hostile'']),
      (''complexity'', True, [''standard'', ''complex'', ''audacious'']),
      (''stronghold_id'', False, []),
      (''new_commander_id'', False, []),
      (''infantry_unit_type_id'', False, []),
      (''cavalry_unit_type_id'', False, []),
      (''rally_hex_id'', False, []),
      (''army_name'', False, []),
      (''detachment_ids'', False, []),
      (''target_army_id'', False, []),
      (''objective'', True, [''kill'', ''steal'', ''burn''])]"
  by (simp add: catalogue_fields_def ORDER_DEFINITIONS_def field_definition_def order_defs
      option_values_def)

lemma catalogue_selects_consistent_all:
  "list_all (\<lambda>(n, s, os). list_all (\<lambda>(n', s', os'). n' = n \<longrightarrow> s' \<and> os' = os)
       (map (\<lambda>f. (name f, type f = T_select, option_values f)) catalogue_fields))
     (filter (\<lambda>(n, s, os). s)
       (map (\<lambda>f. (name f, type f = T_select, option_values f)) catalogue_fields))"
  unfolding catalogue_summary by simp

lemma catalogue_selects_consistent:
  assumes "f \<in> set catalogue_fields" "type f = T_select" "g \<in> set catalogue_fields"
    "name g = name f"
  shows "type g = T_select \<and> option_values g = option_values f"
proof -
  let ?row = "\<lambda>f. (name f, type f = T_select, option_values f)"
  from assms(1,2) have "?row f \<in> set (filter (\<lambda>(n, s, os). s) (map ?row catalogue_fields))"
    by auto
  moreover from assms(3) have "?row g \<in> set (map ?row catalogue_fields)" by auto
  ultimately show ?thesis
    using catalogue_selects_consistent_all assms(4)
    unfolding list_all_iff by fastforce
qed

lemma catalogue_select_defaults_all:
  "list_all (\<lambda>f. base_value f \<in> JStr ` set (option_values f))
     (filter (\<lambda>f. type f = T_select) catalogue_fields)"
  by (simp add: catalogue_fields_def ORDER_DEFINITIONS_def field_definition_def order_defs
      base_value_def option_values_def)

lemma catalogue_select_defaults:
  "f \<in> set catalogue_fields \<Longrightarrow> type f = T_select \<Longrightarrow>
   base_value f \<in> JStr ` set (option_values f)"
  using catalogue_select_defaults_all by (auto simp: list_all_iff)

lemma reset_fold_frame:
  "n \<notin> name ` set fl \<Longrightarrow>
   map_of (foldl (\<lambda>base field. AList.update (name field) (base_value field) base) acc fl) n
     = map_of acc n"
  by (induction fl arbitrary: acc) (auto simp: update_conv')

lemma map_of_reset_base_aux:
  "distinct (map name fl) \<Longrightarrow> f \<in> set fl \<Longrightarrow>
   map_of (foldl (\<lambda>base field. AList.update (name field) (base_value field) base) acc fl) (name f)
     = Some (base_value f)"
proof (induction fl arbitrary: acc)
  case Nil
  then show ?case by simp
next
  case (Cons g fl)
  show ?case
  proof (cases "f = g")
    case True
    with Cons.prems have "name g \<notin> name ` set fl" by auto
    from reset_fold_frame [OF this] True show ?thesis by (simp add: update_conv')
  next
    case False
    with Cons.prems have "f \<in> set fl" "distinct (map name fl)" by auto
    from Cons.IH [OF this(2) this(1)] show ?thesis by simp
  qed
qed

lemma map_of_reset_base:
  "distinct (map name fl) \<Longrightarrow> f \<in> set fl \<Longrightarrow> map_of (reset_base fl) (name f) = Some (base_value f)"
  unfolding reset_base_def by (rule map_of_reset_base_aux)

lemma reset_base_Some:
  assumes "distinct (map name fl)" "map_of (reset_base fl) n = Some v"
  shows "\<exists>g \<in> set fl. name g = n \<and> v = base_value g"
proof -
  have "n \<in> name ` set fl"
  proof (rule ccontr)
    assume "n \<notin> name ` set fl"
    from reset_fold_frame [OF this, of "[]"] assms(2) show False
      by (simp add: reset_base_def)
  qed
  then obtain g where g: "g \<in> set fl" "name g = n" by auto
  from map_of_reset_base [OF assms(1) g(1)] g assms(2) show ?thesis by auto
qed

lemma selects_after_reset:
  assumes "map_of ORDER_DEFINITIONS t = Some d"
  shows "selects_hold_options catalogue_fields (reset_base (order_fields d))"
  unfolding selects_hold_options_def list_all_iff
proof (intro ballI impI)
  fix f assume f: "f \<in> set catalogue_fields" and s: "type f = T_select"
  show "case map_of (reset_base (order_fields d)) (name f) of None \<Rightarrow> True
        | Some v \<Rightarrow> v \<in> JStr ` set (option_values f)"
  proof (cases "map_of (reset_base (order_fields d)) (name f)")
    case None
    then show ?thesis by simp
  next
    case (Some v)
    from reset_base_Some [OF table_names_distinct [OF assms] Some] obtain g where
      g: "g \<in> set (order_fields d)" "name g = name f" "v = base_value g" by blast
    from fields_in_catalogue [OF assms g(1)] have gc: "g \<in> set catalogue_fields" .
    from catalogue_selects_consistent [OF f s gc g(2)]
    have "type g = T_select" "option_values g = option_values f" by simp_all
    with catalogue_select_defaults [OF gc] g(3) Some show ?thesis by simp
  qed
qed

lemma reset_current_invariant:
  assumes "orderType st \<in> set ORDER_TYPES"
  shows "form_invariant (reset_current st)"
proof -
  from assms lookup_Some_iff [of "orderType st"] obtain d where
    d: "map_of ORDER_DEFINITIONS (orderType st) = Some d" by blast
  have ot: "orderType (resetFields d st) = orderType st"
    and fs: "fieldState (resetFields d st) = reset_base (order_fields d)"
    by (simp_all add: resetFields_def Let_def)
  from assms d ot fs selects_after_reset [OF d] show ?thesis
    by (simp add: form_invariant_def reset_current_def)
qed

lemma invariant_order_type: "form_invariant st \<Longrightarrow> orderType st \<in> set ORDER_TYPES"
  by (simp add: form_invariant_def)

lemma updateField_invariant:
  assumes inv: "form_invariant st" and em: "emitted st (ChangeField n v)"
  shows "form_invariant (updateField n v st)"
proof -
  from inv have ot: "orderType st \<in> set ORDER_TYPES"
    and sel: "selects_hold_options catalogue_fields (fieldState st)"
    by (simp_all add: form_invariant_def)
  from em obtain d f0 where d: "map_of ORDER_DEFINITIONS (orderType st) = Some d"
    and f0: "f0 \<in> set (order_fields d)" "name f0 = n" "control_emits f0 v"
    by (auto simp: list_ex_iff split: option.splits)
  from fields_in_catalogue [OF d f0(1)] have f0c: "f0 \<in> set catalogue_fields" .
  have "selects_hold_options catalogue_fields (AList.update n v (fieldState st))"
    unfolding selects_hold_options_def list_all_iff
  proof (intro ballI impI)
    fix f assume f: "f \<in> set catalogue_fields" and s: "type f = T_select"
    show "case map_of (AList.update n v (fieldState st)) (name f) of None \<Rightarrow> True
          | Some w \<Rightarrow> w \<in> JStr ` set (option_values f)"
    proof (cases "name f = n")
      case True
      with catalogue_selects_consistent [OF f s f0c] f0(2)
      have "type f0 = T_select" "option_values f0 = option_values f" by simp_all
      with f0(3) have "v \<in> JStr ` set (option_values f)"
        by (auto simp: control_emits_def split: jsval.splits)
      with True show ?thesis by (simp add: update_conv')
    next
      case False
      with sel f s show ?thesis
        by (auto simp: selects_hold_options_def list_all_iff update_conv')
    qed
  qed
  with ot show ?thesis by (simp add: form_invariant_def updateField_def)
qed

lemma invariant_cong:
  "orderType st' = orderType st \<Longrightarrow> fieldState st' = fieldState st \<Longrightarrow>
   form_invariant st \<Longrightarrow> form_invariant st'"
  by (simp add: form_invariant_def)

lemma step_invariant:
  assumes "form_invariant st" "emitted st ev"
  shows "form_invariant (step B st ev)"
proof (cases ev)
  case (ChangeOrderType t)
  with assms show ?thesis by (simp add: form_invariant_def)
next
  case RunResetEffect
  with assms show ?thesis by (auto intro: reset_current_invariant invariant_order_type)
next
  case (ChangeField n v)
  with assms show ?thesis by (auto intro: updateField_invariant)
next
  case OrderCreated
  with assms show ?thesis
    by (auto intro!: reset_current_invariant dest: invariant_order_type)
qed (use assms in \<open>auto elim!: invariant_cong [rotated 2] simp: addLeg_def removeLeg_def updateLeg_def\<close>)

lemma mount_order_type: "orderType mount_state \<in> set ORDER_TYPES"
  by (simp add: mount_state_def ORDER_TYPES_list)

lemma mount_invariant: "form_invariant mount_state"
  using mount_order_type
  by (simp add: form_invariant_def selects_hold_options_def mount_state_def list_all_iff)

lemma reachable_invariant: "reachable B st \<Longrightarrow> form_invariant st"
  by (induction rule: reachable.induct) (auto intro: mount_invariant step_invariant)

lemma reachable_run:
  "reachable B st \<Longrightarrow> run_emitted B st evs \<Longrightarrow> reachable B (foldl (step B) st evs)"
  by (induction evs arbitrary: st) (auto intro: reachable.stepped)

text \<open>What a submitted order carries under the name of a select is one of its options.\<close>

lemma submitted_select:
  assumes inv: "form_invariant st" and sub: "handleSubmit B a st = Submitted p"
    and d: "map_of ORDER_DEFINITIONS (orderType st) = Some d"
    and f: "f \<in> set (order_fields d)" and s: "type f = T_select"
    and v: "map_of (parameters p) (name f) = Some v"
  shows "v \<in> JStr ` set (option_values f)"
proof -
  from handleSubmit_SubmittedD [OF sub] d
  have run: "processFields B (orderType st) (legs st) (fieldState st) (order_fields d) []
             = Inr (parameters p)" by auto
  from processFields_field [OF run table_names_distinct [OF d] f] obtain ps0 ps1 where
    one: "processField B (orderType st) (legs st) (fieldState st) f ps0 = Inr ps1"
    and before: "map_of ps0 (name f) = map_of [] (name f)"
    and after: "map_of (parameters p) (name f) = map_of ps1 (name f)" by blast
  from processField_select [OF s one] before after v
  have rd: "read_field (fieldState st) (name f) = v" and nu: "v \<noteq> Undefined"
    by (auto simp: update_conv' split: if_splits)
  then have "map_of (fieldState st) (name f) = Some v"
    by (auto simp: read_field_def split: option.splits)
  with inv fields_in_catalogue [OF d f] s show ?thesis
    by (auto simp: form_invariant_def selects_hold_options_def list_all_iff)
qed

lemma submitted_territory:
  assumes "reachable B st" "handleSubmit B a st = Submitted p"
    "map_of (parameters p) ''territory_type'' = Some v"
  shows "v \<in> {JStr ''friendly'', JStr ''neutral'', JStr ''hostile''}"
proof -
  from handleSubmit_SubmittedD [OF assms(2)] obtain d where
    d: "map_of ORDER_DEFINITIONS (orderType st) = Some d"
    and run: "processFields B (orderType st) (legs st) (fieldState st) (order_fields d) []
             = Inr (parameters p)" by blast
  have "''territory_type'' \<in> name ` set (order_fields d)"
  proof (rule ccontr)
    assume "''territory_type'' \<notin> name ` set (order_fields d)"
    from processFields_frame [OF run this] assms(3) show False by simp
  qed
  then obtain f where f: "f \<in> set (order_fields d)" "name f = ''territory_type''" by auto
  from table_territory [OF d f] have s: "type f = T_select"
    and o: "option_values f = [''friendly'', ''neutral'', ''hostile'']" by simp_all
  from submitted_select [OF reachable_invariant [OF assms(1)] assms(2) d f(1) s] assms(3) f(2) o
  show ?thesis by auto
qed

subsection \<open>The handler and the form at concrete inputs\<close>

lemmas number_eval = plain_builtins_def decimal_StringToNumber_def ascii_trim_def is_space_def
  unsigned_decimal_def is_digit_def digits_value_def

lemmas submit_eval = handleSubmit_def ORDER_DEFINITIONS_def processField_def read_field_def
  field_definition_def preparedLegs_def prepareLeg_def leg_filled_def defaultLeg_def Let_def

lemmas machine_eval = mount_state_def message_events_def reset_current_def resetFields_def
  reset_base_def base_value_def updateField_def ORDER_DEFINITIONS_def field_definition_def
  option_values_def control_emits_def Let_def defaultLeg_def

lemma rest_submit:
  "handleSubmit plain_builtins (Some (Fin 3)) rest_form =
     Submitted \<lparr> army_id = Some (Fin 3), commander_id = Some (Fin 2), order_type = ''rest'',
                 parameters = [(''duration_days'', JNum (Fin 1))], execute_day = None,
                 execute_part = None, priority = Fin 0 \<rparr>"
  by (simp add: rest_form_def rest_order_def submit_eval number_eval)

lemma besiege_submit:
  "handleSubmit plain_builtins (Some (Fin 3)) (besiege_form (JStr ''12'')) =
     Submitted \<lparr> army_id = Some (Fin 3), commander_id = Some (Fin 2), order_type = ''besiege'',
                 parameters = [(''stronghold_id'', JNum (Fin 12))], execute_day = None,
                 execute_part = None, priority = Fin 0 \<rparr>"
  by (simp add: besiege_form_def besiege_order_def submit_eval number_eval)

lemma move_submit:
  "handleSubmit plain_builtins (Some (Fin 3)) (move_form [march_row]) =
     Submitted \<lparr> army_id = Some (Fin 3), commander_id = Some (Fin 2), order_type = ''move'',
                 parameters = [(''movement_type'', JStr ''standard''),
                               (''weather_modifier'', JNum (Fin 0)),
                               (''legs'', JArr [JObj [(''to_hex_id'', JNum (Fin 14)),
                                  (''distance_miles'', JNum (Fin (13/2))),
                                  (''on_road'', JBool True), (''has_river_ford'', JBool False),
                                  (''is_night'', JBool False), (''has_fork'', JBool False),
                                  (''alternate_hex_id'', Undefined)]])],
                 execute_day = None, execute_part = None, priority = Fin 0 \<rparr>"
  by (simp add: move_form_def march_row_def move_order_def submit_eval number_eval)

lemma assault_submit_rolls:
  "handleSubmit plain_builtins (Some (Fin 3))
       (assault_form (JStr ''12'') (JStr ''20'') (JStr ''1'')) =
     Submitted \<lparr> army_id = Some (Fin 3), commander_id = Some (Fin 2), order_type = ''assault'',
                 parameters = [(''stronghold_id'', JNum (Fin 12)), (''pillage'', JBool False),
                               (''attacker_modifier'', JNum (Fin 0)),
                               (''defender_modifier'', JNum (Fin 0)),
                               (''attacker_fixed_roll'', JNum (Fin 20)),
                               (''defender_fixed_roll'', JNum (Fin 1))],
                 execute_day = None, execute_part = None, priority = Fin 0 \<rparr>"
  by (simp add: assault_form_def assault_order_def submit_eval number_eval)

lemma assault_submit_blank_rolls:
  "handleSubmit plain_builtins (Some (Fin 3))
       (assault_form (JStr ''12'') (JStr '''') (JStr '''')) =
     Submitted \<lparr> army_id = Some (Fin 3), commander_id = Some (Fin 2), order_type = ''assault'',
                 parameters = [(''stronghold_id'', JNum (Fin 12)), (''pillage'', JBool False),
                               (''attacker_modifier'', JNum (Fin 0)),
                               (''defender_modifier'', JNum (Fin 0))],
                 execute_day = None, execute_part = None, priority = Fin 0 \<rparr>"
  by (simp add: assault_form_def assault_order_def submit_eval number_eval)

text \<open>
  The handler does not read \<^verbatim>\<open>required\<close> in its number branch: an assault whose stronghold
  input is blank is sent, without the property.
\<close>

lemma assault_submit_blank_stronghold:
  "handleSubmit plain_builtins (Some (Fin 3))
       (assault_form (JStr '''') (JStr '''') (JStr '''')) =
     Submitted \<lparr> army_id = Some (Fin 3), commander_id = Some (Fin 2), order_type = ''assault'',
                 parameters = [(''pillage'', JBool False),
                               (''attacker_modifier'', JNum (Fin 0)),
                               (''defender_modifier'', JNum (Fin 0))],
                 execute_day = None, execute_part = None, priority = Fin 0 \<rparr>"
  by (simp add: assault_form_def assault_order_def submit_eval number_eval)

lemma message_state:
  "foldl (step plain_builtins) mount_state message_events =
     \<lparr> orderType = ''send_message'',
       fieldState = [(''recipient_id'', JStr ''4''), (''content'', JStr ''hold the ford''),
                     (''territory_type'', JStr ''hostile'')],
       legs = [defaultLeg], commanderId = Some (Fin 2), executeDay = '''', executePart = '''',
       priority_state = Fin 0, error = None \<rparr>"
  by (simp add: machine_eval ORDER_TYPES_list move_order_def send_message_order_def)

lemma message_run_emitted: "run_emitted plain_builtins mount_state message_events"
  by (simp add: machine_eval ORDER_TYPES_list move_order_def send_message_order_def)

lemma message_submit:
  "handleSubmit plain_builtins None (foldl (step plain_builtins) mount_state message_events) =
     Submitted \<lparr> army_id = None, commander_id = Some (Fin 2), order_type = ''send_message'',
                 parameters = [(''recipient_id'', JNum (Fin 4)), (''content'', JStr ''hold the ford''),
                               (''territory_type'', JStr ''hostile'')],
                 execute_day = None, execute_part = None, priority = Fin 0 \<rparr>"
  unfolding message_state
  by (simp add: send_message_order_def submit_eval number_eval)

section \<open>The claims about the order form\<close>

text \<open>
  C2. The order types of the catalogue, \<^verbatim>\<open>ORDER_TYPES\<close>, are the fourteen names move,
  rest, forage, torch, supply_transfer, besiege, assault, embark, disembark, naval_move,
  send_message, launch_operation, raise_army and harry, each once, and they are the closed
  set of the specification. Every order the form submits has its order type among them;
  with any other order type the handler submits nothing; and the scheduler's check, as the
  specification describes it, rejects any other order type with ValidationError and
  accepts these.
\<close>

theorem order_types_closed:
  "ORDER_TYPES = [''move'', ''rest'', ''forage'', ''torch'', ''supply_transfer'', ''besiege'',
     ''assault'', ''embark'', ''disembark'', ''naval_move'', ''send_message'',
     ''launch_operation'', ''raise_army'', ''harry'']
   \<and> set ORDER_TYPES = spec_order_types
   \<and> distinct ORDER_TYPES \<and> length ORDER_TYPES = 14
   \<and> (\<forall>p. handleSubmit B a st = Submitted p \<longrightarrow> order_type p \<in> set ORDER_TYPES)
   \<and> (orderType st \<notin> set ORDER_TYPES \<longrightarrow> (\<forall>p. handleSubmit B a st \<noteq> Submitted p))
   \<and> (t \<notin> set ORDER_TYPES \<longrightarrow> check_order_type t = Inl ValidationError)
   \<and> (t \<in> set ORDER_TYPES \<longrightarrow> check_order_type t = Inr t)"
proof -
  have sub: "order_type p \<in> set ORDER_TYPES \<and> orderType st \<in> set ORDER_TYPES"
    if "handleSubmit B a st = Submitted p" for p
    using handleSubmit_SubmittedD [OF that] lookup_Some_iff [of "orderType st"] by auto
  have chk: "check_order_type t = (if t \<in> set ORDER_TYPES then Inr t else Inl ValidationError)"
    by (simp add: check_order_type_def set_ORDER_TYPES)
  have len: "length ORDER_TYPES = 14" unfolding ORDER_TYPES_list by simp
  from sub chk len ORDER_TYPES_list set_ORDER_TYPES distinct_ORDER_TYPES show ?thesis
    by (metis (full_types))
qed

theorem order_types_closed_witness:
  "handleSubmit plain_builtins (Some (Fin 3)) rest_form =
     Submitted \<lparr> army_id = Some (Fin 3), commander_id = Some (Fin 2), order_type = ''rest'',
                 parameters = [(''duration_days'', JNum (Fin 1))], execute_day = None,
                 execute_part = None, priority = Fin 0 \<rparr>
   \<and> ''rest'' \<in> set ORDER_TYPES
   \<and> check_order_type ''rest'' = Inr ''rest''
   \<and> ''teleport'' \<notin> set ORDER_TYPES
   \<and> check_order_type ''teleport'' = Inl ValidationError
   \<and> handleSubmit plain_builtins (Some (Fin 3)) (rest_form\<lparr> orderType := ''teleport'' \<rparr>)
       = Threw_TypeError"
proof -
  have out: "''teleport'' \<notin> set ORDER_TYPES"
    unfolding ORDER_TYPES_list by simp
  have thrown: "handleSubmit plain_builtins (Some (Fin 3)) (rest_form\<lparr> orderType := ''teleport'' \<rparr>)
       = Threw_TypeError"
    by (simp add: handleSubmit_def ORDER_DEFINITIONS_def rest_form_def Object_prototype_keys_def)
  from order_types_closed [of plain_builtins "Some (Fin 3)" rest_form "''rest''"] rest_submit
  have "''rest'' \<in> set ORDER_TYPES" and "check_order_type ''rest'' = Inr ''rest''"
    by auto
  moreover from order_types_closed [of plain_builtins "Some (Fin 3)" rest_form "''teleport''"] out
  have "check_order_type ''teleport'' = Inl ValidationError" by blast
  ultimately show ?thesis using rest_submit out thrown by simp
qed

text \<open>
  C5. A move order is submitted only with at least one leg. When no row of the form has
  both its destination and its distance filled in, the handler ends in
  \<^verbatim>\<open>setError\<close> and sends nothing; and a move order that is sent carries, under \<^verbatim>\<open>legs\<close>,
  the non-empty list of the prepared rows.
\<close>

theorem move_requires_a_leg:
  assumes "orderType st = ''move''"
  shows "(preparedLegs B (legs st) = [] \<longrightarrow> (\<exists>msg. handleSubmit B a st = Rejected msg))
       \<and> (\<forall>p. handleSubmit B a st = Submitted p \<longrightarrow>
            (\<exists>l ls'. map_of (parameters p) ''legs'' = Some (JArr (l # ls'))
                    \<and> l # ls' = preparedLegs B (legs st)))"
proof -
  have carried: "\<exists>l ls'. map_of (parameters p) ''legs'' = Some (JArr (l # ls'))
                    \<and> l # ls' = preparedLegs B (legs st)"
    if sub: "handleSubmit B a st = Submitted p" for p
    using move_submitted_legs [OF assms sub] by (cases "preparedLegs B (legs st)") auto
  from move_without_legs_rejected [OF assms, of B a] carried show ?thesis by blast
qed

theorem move_requires_a_leg_witness:
  "orderType (move_form [defaultLeg]) = ''move''
   \<and> preparedLegs plain_builtins (legs (move_form [defaultLeg])) = []
   \<and> handleSubmit plain_builtins (Some (Fin 3)) (move_form [defaultLeg])
       = Rejected ''Provide at least one movement leg.''
   \<and> orderType (move_form [march_row]) = ''move''
   \<and> (\<exists>p l ls'. handleSubmit plain_builtins (Some (Fin 3)) (move_form [march_row]) = Submitted p
         \<and> map_of (parameters p) ''legs'' = Some (JArr (l # ls')))"
proof -
  have t1: "orderType (move_form [defaultLeg]) = ''move''"
    and t2: "orderType (move_form [march_row]) = ''move''"
    by (simp_all add: move_form_def)
  have none: "preparedLegs plain_builtins (legs (move_form [defaultLeg])) = []"
    by (simp add: move_form_def preparedLegs_def leg_filled_def defaultLeg_def number_eval)
  from move_requires_a_leg [OF t1, of plain_builtins "Some (Fin 3)"] none
  obtain msg where "handleSubmit plain_builtins (Some (Fin 3)) (move_form [defaultLeg]) = Rejected msg"
    by blast
  moreover have "handleSubmit plain_builtins (Some (Fin 3)) (move_form [defaultLeg])
       = Rejected ''Provide at least one movement leg.''"
    by (simp add: move_form_def move_order_def submit_eval number_eval)
  moreover from move_requires_a_leg [OF t2, of plain_builtins "Some (Fin 3)"] move_submit
  have "\<exists>p l ls'. handleSubmit plain_builtins (Some (Fin 3)) (move_form [march_row]) = Submitted p
         \<and> map_of (parameters p) ''legs'' = Some (JArr (l # ls'))"
    by blast
  ultimately show ?thesis using t1 t2 none by simp
qed

text \<open>
  C6. In a submitted move order, \<^verbatim>\<open>legs\<close> is the list of the rows that have both texts
  filled in, each as an object with exactly the seven properties: the numbers
  \<^verbatim>\<open>to_hex_id\<close> and \<^verbatim>\<open>distance_miles\<close> (the conversions of the two texts), the booleans
  \<^verbatim>\<open>on_road\<close>, \<^verbatim>\<open>has_river_ford\<close>, \<^verbatim>\<open>is_night\<close> and \<^verbatim>\<open>has_fork\<close> of the row, and
  \<^verbatim>\<open>alternate_hex_id\<close>, a number when the row's text for it is not empty and
  \<^verbatim>\<open>undefined\<close> (left out of the request body) when it is.
\<close>

theorem move_legs_shape:
  assumes "handleSubmit B a st = Submitted p" and "order_type p = ''move''"
  shows "map_of (parameters p) ''legs''
           = Some (JArr (map (prepareLeg B) (filter (leg_filled B) (legs st))))
       \<and> (\<forall>leg \<in> set (map (prepareLeg B) (filter (leg_filled B) (legs st))). leg_shape leg)
       \<and> (\<forall>row \<in> set (legs st). \<forall>kvs. prepareLeg B row = JObj kvs \<longrightarrow>
            map_of kvs ''to_hex_id'' = Some (JNum (js_Number B (JStr (to_hex_id row))))
          \<and> map_of kvs ''distance_miles'' = Some (JNum (js_Number B (JStr (distance_miles row))))
          \<and> map_of kvs ''on_road'' = Some (JBool (on_road row))
          \<and> map_of kvs ''has_river_ford'' = Some (JBool (has_river_ford row))
          \<and> map_of kvs ''is_night'' = Some (JBool (is_night row))
          \<and> map_of kvs ''has_fork'' = Some (JBool (has_fork row))
          \<and> map_of kvs ''alternate_hex_id''
              = Some (if alternate_hex_id row = [] then Undefined
                      else JNum (js_Number B (JStr (alternate_hex_id row)))))"
proof -
  from handleSubmit_SubmittedD [OF assms(1)] assms(2)
  have ot: "orderType st = ''move''" by auto
  from move_submitted_legs [OF ot assms(1)]
  have 1: "map_of (parameters p) ''legs''
           = Some (JArr (map (prepareLeg B) (filter (leg_filled B) (legs st))))"
    by (simp add: preparedLegs_def)
  have 2: "\<forall>leg \<in> set (map (prepareLeg B) (filter (leg_filled B) (legs st))). leg_shape leg"
    by (auto simp: leg_shape_prepareLeg)
  have 3: "\<forall>row \<in> set (legs st). \<forall>kvs. prepareLeg B row = JObj kvs \<longrightarrow>
            map_of kvs ''to_hex_id'' = Some (JNum (js_Number B (JStr (to_hex_id row))))
          \<and> map_of kvs ''distance_miles'' = Some (JNum (js_Number B (JStr (distance_miles row))))
          \<and> map_of kvs ''on_road'' = Some (JBool (on_road row))
          \<and> map_of kvs ''has_river_ford'' = Some (JBool (has_river_ford row))
          \<and> map_of kvs ''is_night'' = Some (JBool (is_night row))
          \<and> map_of kvs ''has_fork'' = Some (JBool (has_fork row))
          \<and> map_of kvs ''alternate_hex_id''
              = Some (if alternate_hex_id row = [] then Undefined
                      else JNum (js_Number B (JStr (alternate_hex_id row))))"
    by (auto simp: prepareLeg_def)
  from 1 2 3 show ?thesis by blast
qed

theorem move_legs_shape_witness:
  "(\<exists>p. handleSubmit plain_builtins (Some (Fin 3)) (move_form [march_row]) = Submitted p
        \<and> order_type p = ''move''
        \<and> map_of (parameters p) ''legs''
            = Some (JArr [JObj [(''to_hex_id'', JNum (Fin 14)),
                                (''distance_miles'', JNum (Fin (13/2))),
                                (''on_road'', JBool True), (''has_river_ford'', JBool False),
                                (''is_night'', JBool False), (''has_fork'', JBool False),
                                (''alternate_hex_id'', Undefined)]]))
   \<and> leg_shape (JObj [(''to_hex_id'', JNum (Fin 14)),
                       (''distance_miles'', JNum (Fin (13/2))),
                       (''on_road'', JBool True), (''has_river_ford'', JBool False),
                       (''is_night'', JBool False), (''has_fork'', JBool False),
                       (''alternate_hex_id'', Undefined)])"
proof -
  let ?p = "\<lparr> army_id = Some (Fin 3), commander_id = Some (Fin 2), order_type = ''move'',
                 parameters = [(''movement_type'', JStr ''standard''),
                               (''weather_modifier'', JNum (Fin 0)),
                               (''legs'', JArr [JObj [(''to_hex_id'', JNum (Fin 14)),
                                  (''distance_miles'', JNum (Fin (13/2))),
                                  (''on_road'', JBool True), (''has_river_ford'', JBool False),
                                  (''is_night'', JBool False), (''has_fork'', JBool False),
                                  (''alternate_hex_id'', Undefined)]])],
                 execute_day = None, execute_part = None, priority = Fin 0 \<rparr>"
  have sub: "handleSubmit plain_builtins (Some (Fin 3)) (move_form [march_row]) = Submitted ?p"
    by (rule move_submit)
  have ot: "order_type ?p = ''move''" by simp
  have rows: "map (prepareLeg plain_builtins) (filter (leg_filled plain_builtins)
                 (legs (move_form [march_row])))
      = [JObj [(''to_hex_id'', JNum (Fin 14)), (''distance_miles'', JNum (Fin (13/2))),
               (''on_road'', JBool True), (''has_river_ford'', JBool False),
               (''is_night'', JBool False), (''has_fork'', JBool False),
               (''alternate_hex_id'', Undefined)]]"
    by (simp add: move_form_def march_row_def prepareLeg_def leg_filled_def defaultLeg_def
        number_eval)
  from move_legs_shape [OF sub ot] rows sub show ?thesis
    by auto
qed

text \<open>
  C7. The assault entry of the catalogue has the six fields stronghold_id, pillage,
  attacker_modifier, defender_modifier, attacker_fixed_roll and defender_fixed_roll:
  stronghold_id is a number marked required; pillage is a checkbox; the two modifiers are
  numbers with default 0; the two fixed rolls are numbers with no \<^verbatim>\<open>required\<close> mark and
  no default. Accordingly an assault with fixed rolls 20 and 1 is sent with both rolls,
  and one with the two roll inputs blank is sent without them.
\<close>

theorem assault_parameter_shape:
  "map_of ORDER_DEFINITIONS ''assault'' = Some assault_order
   \<and> requiresArmy assault_order
   \<and> map name (order_fields assault_order)
       = [''stronghold_id'', ''pillage'', ''attacker_modifier'', ''defender_modifier'',
          ''attacker_fixed_roll'', ''defender_fixed_roll'']
   \<and> map_option (\<lambda>f. (type f, required f)) (field_named assault_order ''stronghold_id'')
       = Some (T_number, Some True)
   \<and> map_option (\<lambda>f. (type f, required f, base_value f)) (field_named assault_order ''pillage'')
       = Some (T_checkbox, None, JBool False)
   \<and> map_option (\<lambda>f. (type f, required f, defaultValue f))
        (field_named assault_order ''attacker_modifier'') = Some (T_number, None, Some (JNum (Fin 0)))
   \<and> map_option (\<lambda>f. (type f, required f, defaultValue f))
        (field_named assault_order ''defender_modifier'') = Some (T_number, None, Some (JNum (Fin 0)))
   \<and> map_option (\<lambda>f. (type f, required f, defaultValue f))
        (field_named assault_order ''attacker_fixed_roll'') = Some (T_number, None, None)
   \<and> map_option (\<lambda>f. (type f, required f, defaultValue f))
        (field_named assault_order ''defender_fixed_roll'') = Some (T_number, None, None)
   \<and> handleSubmit plain_builtins (Some (Fin 3))
        (assault_form (JStr ''12'') (JStr ''20'') (JStr ''1'')) =
      Submitted \<lparr> army_id = Some (Fin 3), commander_id = Some (Fin 2), order_type = ''assault'',
                 parameters = [(''stronghold_id'', JNum (Fin 12)), (''pillage'', JBool False),
                               (''attacker_modifier'', JNum (Fin 0)),
                               (''defender_modifier'', JNum (Fin 0)),
                               (''attacker_fixed_roll'', JNum (Fin 20)),
                               (''defender_fixed_roll'', JNum (Fin 1))],
                 execute_day = None, execute_part = None, priority = Fin 0 \<rparr>
   \<and> handleSubmit plain_builtins (Some (Fin 3))
        (assault_form (JStr ''12'') (JStr '''') (JStr '''')) =
      Submitted \<lparr> army_id = Some (Fin 3), commander_id = Some (Fin 2), order_type = ''assault'',
                 parameters = [(''stronghold_id'', JNum (Fin 12)), (''pillage'', JBool False),
                               (''attacker_modifier'', JNum (Fin 0)),
                               (''defender_modifier'', JNum (Fin 0))],
                 execute_day = None, execute_part = None, priority = Fin 0 \<rparr>"
proof -
  have table: "map_of ORDER_DEFINITIONS ''assault'' = Some assault_order"
    by (simp add: ORDER_DEFINITIONS_def)
  have shape: "requiresArmy assault_order"
    "map name (order_fields assault_order)
       = [''stronghold_id'', ''pillage'', ''attacker_modifier'', ''defender_modifier'',
          ''attacker_fixed_roll'', ''defender_fixed_roll'']"
    "map_option (\<lambda>f. (type f, required f)) (field_named assault_order ''stronghold_id'')
       = Some (T_number, Some True)"
    "map_option (\<lambda>f. (type f, required f, base_value f)) (field_named assault_order ''pillage'')
       = Some (T_checkbox, None, JBool False)"
    "map_option (\<lambda>f. (type f, required f, defaultValue f))
        (field_named assault_order ''attacker_modifier'') = Some (T_number, None, Some (JNum (Fin 0)))"
    "map_option (\<lambda>f. (type f, required f, defaultValue f))
        (field_named assault_order ''defender_modifier'') = Some (T_number, None, Some (JNum (Fin 0)))"
    "map_option (\<lambda>f. (type f, required f, defaultValue f))
        (field_named assault_order ''attacker_fixed_roll'') = Some (T_number, None, None)"
    "map_option (\<lambda>f. (type f, required f, defaultValue f))
        (field_named assault_order ''defender_fixed_roll'') = Some (T_number, None, None)"
    by (simp_all add: assault_order_def field_named_def field_definition_def base_value_def)
  from table shape assault_submit_rolls assault_submit_blank_rolls show ?thesis
    by simp
qed

theorem assault_parameter_shape_witness:
  "field_named assault_order ''attacker_fixed_roll''
     = Some (field_definition ''attacker_fixed_roll'' ''Attacker Fixed Roll'' T_number
              \<lparr> helper := Some ''Optional deterministic roll for testing.'' \<rparr>)
   \<and> field_named assault_order ''defender_fixed_roll''
     = Some (field_definition ''defender_fixed_roll'' ''Defender Fixed Roll'' T_number)
   \<and> (\<exists>p. handleSubmit plain_builtins (Some (Fin 3))
             (assault_form (JStr ''12'') (JStr ''20'') (JStr ''1'')) = Submitted p
         \<and> map_of (parameters p) ''attacker_fixed_roll'' = Some (JNum (Fin 20))
         \<and> map_of (parameters p) ''defender_fixed_roll'' = Some (JNum (Fin 1)))"
proof -
  have named: "field_named assault_order ''attacker_fixed_roll''
     = Some (field_definition ''attacker_fixed_roll'' ''Attacker Fixed Roll'' T_number
              \<lparr> helper := Some ''Optional deterministic roll for testing.'' \<rparr>)"
    "field_named assault_order ''defender_fixed_roll''
     = Some (field_definition ''defender_fixed_roll'' ''Defender Fixed Roll'' T_number)"
    by (simp_all add: assault_order_def field_named_def field_definition_def)
  from assault_parameter_shape
  have "handleSubmit plain_builtins (Some (Fin 3))
        (assault_form (JStr ''12'') (JStr ''20'') (JStr ''1'')) =
      Submitted \<lparr> army_id = Some (Fin 3), commander_id = Some (Fin 2), order_type = ''assault'',
                 parameters = [(''stronghold_id'', JNum (Fin 12)), (''pillage'', JBool False),
                               (''attacker_modifier'', JNum (Fin 0)),
                               (''defender_modifier'', JNum (Fin 0)),
                               (''attacker_fixed_roll'', JNum (Fin 20)),
                               (''defender_fixed_roll'', JNum (Fin 1))],
                 execute_day = None, execute_part = None, priority = Fin 0 \<rparr>"
    by blast
  then have "\<exists>p. handleSubmit plain_builtins (Some (Fin 3))
             (assault_form (JStr ''12'') (JStr ''20'') (JStr ''1'')) = Submitted p
         \<and> map_of (parameters p) ''attacker_fixed_roll'' = Some (JNum (Fin 20))
         \<and> map_of (parameters p) ''defender_fixed_roll'' = Some (JNum (Fin 1))"
    by simp
  with named show ?thesis by simp
qed

text \<open>
  C8. In the catalogue, \<^verbatim>\<open>territory_type\<close> of both send_message and launch_operation is a
  select whose options are exactly friendly, neutral and hostile, with default friendly,
  and send_message marks recipient_id and content required. Whatever the user does with
  the form, an order it submits carries under \<^verbatim>\<open>territory_type\<close> nothing or one of
  these three strings.
\<close>

theorem territory_type_closed:
  "map_of ORDER_DEFINITIONS ''send_message'' = Some send_message_order
   \<and> map_of ORDER_DEFINITIONS ''launch_operation'' = Some launch_operation_order
   \<and> map_option (\<lambda>f. (type f, option_values f, defaultValue f))
        (field_named send_message_order ''territory_type'')
       = Some (T_select, [''friendly'', ''neutral'', ''hostile''], Some (JStr ''friendly''))
   \<and> map_option (\<lambda>f. (type f, option_values f, defaultValue f))
        (field_named launch_operation_order ''territory_type'')
       = Some (T_select, [''friendly'', ''neutral'', ''hostile''], Some (JStr ''friendly''))
   \<and> map_option (\<lambda>f. (type f, required f)) (field_named send_message_order ''recipient_id'')
       = Some (T_number, Some True)
   \<and> map_option (\<lambda>f. (type f, required f)) (field_named send_message_order ''content'')
       = Some (T_textarea, Some True)
   \<and> (reachable B st \<longrightarrow> handleSubmit B a st = Submitted p \<longrightarrow>
        map_of (parameters p) ''territory_type'' = Some v \<longrightarrow>
        v \<in> {JStr ''friendly'', JStr ''neutral'', JStr ''hostile''})"
proof -
  have table: "map_of ORDER_DEFINITIONS ''send_message'' = Some send_message_order"
    "map_of ORDER_DEFINITIONS ''launch_operation'' = Some launch_operation_order"
    by (simp_all add: ORDER_DEFINITIONS_def)
  have message: "map_option (\<lambda>f. (type f, option_values f, defaultValue f))
        (field_named send_message_order ''territory_type'')
       = Some (T_select, [''friendly'', ''neutral'', ''hostile''], Some (JStr ''friendly''))"
    "map_option (\<lambda>f. (type f, required f)) (field_named send_message_order ''recipient_id'')
       = Some (T_number, Some True)"
    "map_option (\<lambda>f. (type f, required f)) (field_named send_message_order ''content'')
       = Some (T_textarea, Some True)"
    by (simp_all add: send_message_order_def field_named_def field_definition_def
        option_values_def)
  have operation: "map_option (\<lambda>f. (type f, option_values f, defaultValue f))
        (field_named launch_operation_order ''territory_type'')
       = Some (T_select, [''friendly'', ''neutral'', ''hostile''], Some (JStr ''friendly''))"
    by (simp add: launch_operation_order_def field_named_def field_definition_def
        option_values_def)
  from table message operation submitted_territory [of B st a p v] show ?thesis
    by blast
qed

theorem territory_type_closed_witness:
  "reachable plain_builtins (foldl (step plain_builtins) mount_state message_events)
   \<and> handleSubmit plain_builtins None (foldl (step plain_builtins) mount_state message_events) =
       Submitted \<lparr> army_id = None, commander_id = Some (Fin 2), order_type = ''send_message'',
                   parameters = [(''recipient_id'', JNum (Fin 4)),
                                 (''content'', JStr ''hold the ford''),
                                 (''territory_type'', JStr ''hostile'')],
                   execute_day = None, execute_part = None, priority = Fin 0 \<rparr>
   \<and> JStr ''hostile'' \<in> {JStr ''friendly'', JStr ''neutral'', JStr ''hostile''}"
proof -
  let ?st = "foldl (step plain_builtins) mount_state message_events"
  let ?p = "\<lparr> army_id = None, commander_id = Some (Fin 2), order_type = ''send_message'',
                   parameters = [(''recipient_id'', JNum (Fin 4)),
                                 (''content'', JStr ''hold the ford''),
                                 (''territory_type'', JStr ''hostile'')],
                   execute_day = None, execute_part = None, priority = Fin 0 \<rparr>"
  have r: "reachable plain_builtins ?st"
    by (rule reachable_run [OF reachable.mounted message_run_emitted])
  have sent: "map_of (parameters ?p) ''territory_type'' = Some (JStr ''hostile'')"
    by simp
  from territory_type_closed [of plain_builtins ?st None ?p "JStr ''hostile''"] r message_submit sent
  have "JStr ''hostile'' \<in> {JStr ''friendly'', JStr ''neutral'', JStr ''hostile''}"
    by blast
  with r message_submit show ?thesis by simp
qed

text \<open>
  C9. In every payload the handler submits, \<^verbatim>\<open>commander_id\<close> is a number and not null, and
  when the definition of the order type has \<^verbatim>\<open>requiresArmy\<close>, \<^verbatim>\<open>army_id\<close> is a number and
  not null (both are truthy: neither zero nor NaN).
\<close>

theorem submitted_has_commander_and_army:
  "handleSubmit B a st = Submitted p \<Longrightarrow>
   (\<exists>c. commander_id p = Some c \<and> truthy_num c)
   \<and> (\<forall>d. map_of ORDER_DEFINITIONS (order_type p) = Some d \<longrightarrow> requiresArmy d \<longrightarrow>
         (\<exists>n. army_id p = Some n \<and> truthy_num n))"
proof -
  assume sub: "handleSubmit B a st = Submitted p"
  from handleSubmit_SubmittedD [OF sub] obtain d where
    d: "map_of ORDER_DEFINITIONS (orderType st) = Some d"
    and eqs: "order_type p = orderType st" "commander_id p = commanderId st" "army_id p = a"
    and c: "\<not> falsy_opt (commanderId st)" and ar: "requiresArmy d \<longrightarrow> \<not> falsy_opt a"
    by blast
  from c eqs have 1: "\<exists>c. commander_id p = Some c \<and> truthy_num c"
    by (cases "commanderId st") auto
  from ar eqs d have 2: "\<forall>d. map_of ORDER_DEFINITIONS (order_type p) = Some d \<longrightarrow> requiresArmy d \<longrightarrow>
         (\<exists>n. army_id p = Some n \<and> truthy_num n)"
    by (cases a) auto
  from 1 2 show ?thesis by simp
qed

theorem submitted_has_commander_and_army_witness:
  "(\<exists>p. handleSubmit plain_builtins (Some (Fin 3)) rest_form = Submitted p
        \<and> commander_id p = Some (Fin 2) \<and> army_id p = Some (Fin 3)
        \<and> map_of ORDER_DEFINITIONS (order_type p) = Some rest_order)
   \<and> requiresArmy rest_order \<and> truthy_num (Fin 2) \<and> truthy_num (Fin 3)
   \<and> handleSubmit plain_builtins None rest_form = Rejected ''Select an army to issue this order.''
   \<and> handleSubmit plain_builtins (Some (Fin 3)) (rest_form\<lparr> commanderId := None \<rparr>)
       = Rejected ''Select a commander to authorise the order.''"
proof -
  have table: "map_of ORDER_DEFINITIONS ''rest'' = Some rest_order"
    by (simp add: ORDER_DEFINITIONS_def)
  have needs: "requiresArmy rest_order" by (simp add: rest_order_def)
  from submitted_has_commander_and_army [OF rest_submit] table needs
  have "truthy_num (Fin 2)" and "truthy_num (Fin 3)" by auto
  moreover have "handleSubmit plain_builtins None rest_form
      = Rejected ''Select an army to issue this order.''"
    by (simp add: rest_form_def rest_order_def submit_eval)
  moreover have "handleSubmit plain_builtins (Some (Fin 3)) (rest_form\<lparr> commanderId := None \<rparr>)
       = Rejected ''Select a commander to authorise the order.''"
    by (simp add: rest_form_def rest_order_def submit_eval)
  ultimately show ?thesis using rest_submit table needs by simp
qed

text \<open>
  C10. For a number field of the selected order's definition: whatever a submitted order
  carries under the field's name is a finite number; when the input is blank (the empty
  string, null or undefined) a submitted order does not carry the name at all; and when
  the input is not blank and does not convert to a finite number, the handler ends in
  \<^verbatim>\<open>setError\<close> and nothing is sent.
\<close>

theorem number_fields_finite_or_omitted:
  assumes "map_of ORDER_DEFINITIONS (orderType st) = Some d"
    and "f \<in> set (order_fields d)" and "type f = T_number"
  shows "(\<forall>p v. handleSubmit B a st = Submitted p \<longrightarrow>
            map_of (parameters p) (name f) = Some v \<longrightarrow> (\<exists>x. v = JNum (Fin x)))
       \<and> (\<forall>p. handleSubmit B a st = Submitted p \<longrightarrow>
            blank_input (read_field (fieldState st) (name f)) \<longrightarrow>
            map_of (parameters p) (name f) = None)
       \<and> (\<not> blank_input (read_field (fieldState st) (name f))
            \<and> \<not> Number_isFinite (js_Number B (read_field (fieldState st) (name f)))
          \<longrightarrow> (\<exists>msg. handleSubmit B a st = Rejected msg))"
proof -
  have dist: "distinct (map name (order_fields d))"
    using assms(1) by (rule table_names_distinct)
  have sent: "map_of (parameters p) (name f)
      = (if blank_input (read_field (fieldState st) (name f)) then None
         else map_of (parameters p) (name f))
     \<and> (\<forall>v. map_of (parameters p) (name f) = Some v \<longrightarrow> (\<exists>x. v = JNum (Fin x)))"
    if sub: "handleSubmit B a st = Submitted p" for p
  proof -
    from handleSubmit_SubmittedD [OF sub] assms(1)
    have run: "processFields B (orderType st) (legs st) (fieldState st) (order_fields d) []
               = Inr (parameters p)" by auto
    from processFields_field [OF run dist assms(2)] obtain ps0 ps1 where
      one: "processField B (orderType st) (legs st) (fieldState st) f ps0 = Inr ps1"
      and before: "map_of ps0 (name f) = map_of [] (name f)"
      and after: "map_of (parameters p) (name f) = map_of ps1 (name f)" by blast
    from processField_number [OF assms(3) one] before after show ?thesis
      by (auto simp: update_conv')
  qed
  have abort: "\<exists>msg. handleSubmit B a st = Rejected msg"
    if "\<not> blank_input (read_field (fieldState st) (name f))"
      "\<not> Number_isFinite (js_Number B (read_field (fieldState st) (name f)))"
  proof -
    from processField_number_Inl [OF assms(3) that]
    have "\<forall>ps. \<exists>msg. processField B (orderType st) (legs st) (fieldState st) f ps = Inl msg"
      by blast
    from processFields_Inl [OF assms(2) this] obtain m where
      "processFields B (orderType st) (legs st) (fieldState st) (order_fields d) [] = Inl m"
      by blast
    from handleSubmit_Inl [OF assms(1) this] show ?thesis .
  qed
  from sent abort show ?thesis by metis
qed

theorem number_fields_finite_or_omitted_witness:
  "map_of ORDER_DEFINITIONS (orderType (besiege_form (JStr ''12''))) = Some besiege_order
   \<and> siege_engines_field \<in> set (order_fields besiege_order)
   \<and> type siege_engines_field = T_number
   \<and> blank_input (read_field (fieldState (besiege_form (JStr ''12''))) (name siege_engines_field))
   \<and> (\<exists>p. handleSubmit plain_builtins (Some (Fin 3)) (besiege_form (JStr ''12'')) = Submitted p
         \<and> map_of (parameters p) ''siege_engines'' = None
         \<and> map_of (parameters p) ''stronghold_id'' = Some (JNum (Fin 12)))
   \<and> map_of ORDER_DEFINITIONS (orderType (besiege_form (JStr ''abc''))) = Some besiege_order
   \<and> stronghold_id_field \<in> set (order_fields besiege_order)
   \<and> type stronghold_id_field = T_number
   \<and> handleSubmit plain_builtins (Some (Fin 3)) (besiege_form (JStr ''abc''))
       = Rejected ''Stronghold ID must be a number.''"
proof -
  have d1: "map_of ORDER_DEFINITIONS (orderType (besiege_form (JStr ''12''))) = Some besiege_order"
    and d2: "map_of ORDER_DEFINITIONS (orderType (besiege_form (JStr ''abc''))) = Some besiege_order"
    by (simp_all add: besiege_form_def lookup_besiege)
  have blank: "blank_input (read_field (fieldState (besiege_form (JStr ''12'')))
                 (name siege_engines_field))"
    by (simp add: besiege_form_def besiege_fields(6) read_field_def blank_input_def)
  from number_fields_finite_or_omitted [OF d1 besiege_fields(4) besiege_fields(5),
         of plain_builtins "Some (Fin 3)"] blank besiege_submit
  have omitted: "\<exists>p. handleSubmit plain_builtins (Some (Fin 3)) (besiege_form (JStr ''12''))
         = Submitted p
         \<and> map_of (parameters p) ''siege_engines'' = None
         \<and> map_of (parameters p) ''stronghold_id'' = Some (JNum (Fin 12))"
    by (simp add: besiege_fields(6))
  have bad: "\<not> blank_input (read_field (fieldState (besiege_form (JStr ''abc'')))
                 (name stronghold_id_field))"
    "\<not> Number_isFinite (js_Number plain_builtins
          (read_field (fieldState (besiege_form (JStr ''abc''))) (name stronghold_id_field)))"
    by (simp_all add: besiege_form_def besiege_fields(3) read_field_def blank_input_def
        number_eval)
  from number_fields_finite_or_omitted [OF d2 besiege_fields(1) besiege_fields(2),
         of plain_builtins "Some (Fin 3)"] bad
  obtain msg where "handleSubmit plain_builtins (Some (Fin 3)) (besiege_form (JStr ''abc''))
       = Rejected msg" by blast
  moreover have "handleSubmit plain_builtins (Some (Fin 3)) (besiege_form (JStr ''abc''))
       = Rejected ''Stronghold ID must be a number.''"
    by (simp add: besiege_form_def besiege_order_def submit_eval number_eval)
  ultimately show ?thesis
    using d1 d2 blank omitted besiege_fields by simp
qed

end
